theory Spec2Isabelle
  imports Complex_Main
begin

section \<open>Shared conventions\<close>

text \<open>
  The development embeds the server side of the game-hosting platform: the metadata
  store (\<^verbatim>\<open>server/app/db_server.py\<close>), the central directory server
  (\<^verbatim>\<open>server/app/central_lobby_server.py\<close>), the per-game lobby server
  (\<^verbatim>\<open>server/app/game_lobby_server.py\<close>) and the reference grid-game room server
  (\<^verbatim>\<open>client/dev/TTT_GUI/v1/run_room_server.py\<close>).

  Module-level tables of the Python code are fields of explicit state records, and
  every handler returns its reply together with the new state. Byte strings are
  \<open>char list\<close> (a \<open>char\<close> is one byte). A path below \<^verbatim>\<open>STORAGE_DIR\<close> is the list of
  its components, so \<^verbatim>\<open>STORAGE_DIR / game_name / filename\<close> is \<open>[game_name, filename]\<close>;
  names are taken to be single components. Python's truth test on an optional string
  (\<^verbatim>\<open>if not x\<close>) is \<open>truthy\<close>: neither \<^verbatim>\<open>None\<close> nor empty.
\<close>

type_synonym bytes = "char list"
type_synonym path = "string list"

fun truthy :: "string option \<Rightarrow> bool" where
  "truthy None = False"
| "truthy (Some s) = (s \<noteq> [])"

fun truthy_int :: "int option \<Rightarrow> bool" where
  "truthy_int None = False"
| "truthy_int (Some n) = (n \<noteq> 0)"

text \<open>\<open>is_under d p\<close>: the path \<open>p\<close> is \<open>d\<close> itself or lies below it.\<close>

definition is_under :: "path \<Rightarrow> path \<Rightarrow> bool" where
  "is_under d p = (take (length d) p = d)"

section \<open>Metadata store (db\_server.py)\<close>

text \<open>
  The three JSON files are lists of records; the storage tree is a map from paths to
  file contents together with the set of directories. Field names carry a prefix
  because several records of the source share key names. The constant
  \<^verbatim>\<open>"rating": None\<close> key of a stored game is never read back and is left out.

  The record \<open>central\<close> gathers what the central server process holds: the store, the
  tables \<^verbatim>\<open>lobbies\<close>, \<^verbatim>\<open>clients\<close> and \<^verbatim>\<open>active_usernames\<close>, and for every open
  connection the \<^verbatim>\<open>username\<close> field of its \<^verbatim>\<open>ClientContext\<close>. Connections and child
  processes are numbers. \<^verbatim>\<open>lobbies\<close> is an association list in insertion order, and
  \<open>spawned\<close> lists the children started with \<^verbatim>\<open>subprocess.Popen\<close>, oldest first.
\<close>

record User =
  u_username :: string
  u_password :: string
  u_games :: "string list"
  u_games_own :: "string list"

record Game =
  g_game_name :: string
  g_version :: string
  g_filename :: string
  g_storage_path :: path
  g_description :: string
  g_author :: "string option"
  g_extracted_path :: "path option"
  g_min_players :: int
  g_max_players :: int

record Comment =
  c_game_name :: string
  c_username :: string
  c_score :: int
  c_comment :: string

record LobbyProcess =
  l_game_name :: string
  l_process :: nat
  l_host :: string
  l_port :: int

record central =
  users :: "User list"
  games :: "Game list"
  comments :: "Comment list"
  files :: "path \<rightharpoonup> bytes"
  dirs :: "path set"
  lobbies :: "(string \<times> LobbyProcess) list"
  clients :: "nat \<rightharpoonup> string option"
  active_usernames :: "string set"
  ctx_username :: "nat \<rightharpoonup> string option"
  spawned :: "nat list"

definition get_user :: "central \<Rightarrow> string \<Rightarrow> User option" where
  "get_user st username = find (\<lambda>u. u_username u = username) (users st)"

definition invalid_chars :: "char set" where
  "invalid_chars = {CHR ''<'', CHR ''>'', CHR '':'', CHR ''.'', CHR 0x22, CHR ''/'', CHR 0x5C,
       CHR ''|'', CHR ''?'', CHR ''*''}"

definition register_user :: "string \<Rightarrow> string \<Rightarrow> central \<Rightarrow> (bool \<times> string option) \<times> central" where
  "register_user username password st =
     (if \<exists>ch \<in> set username. ch \<in> invalid_chars then ((False, Some ''INVALID_USERNAME''), st)
      else if \<exists>u \<in> set (users st). u_username u = username
        then ((False, Some ''USERNAME_EXISTS''), st)
      else ((True, None),
        st\<lparr>users := users st @
          [\<lparr>u_username = username, u_password = password, u_games = [], u_games_own = []\<rparr>]\<rparr>))"

definition authenticate_user :: "central \<Rightarrow> string \<Rightarrow> string \<Rightarrow> bool" where
  "authenticate_user st username password =
     (case get_user st username of None \<Rightarrow> False | Some u \<Rightarrow> u_password u = password)"

definition record_download :: "string option \<Rightarrow> string \<Rightarrow> central \<Rightarrow> central" where
  "record_download username game_name st =
     (if \<not> truthy username then st
      else st\<lparr>users := map (\<lambda>u.
             if Some (u_username u) = username \<and> game_name \<notin> set (u_games u)
             then u\<lparr>u_games := u_games u @ [game_name]\<rparr> else u) (users st)\<rparr>)"

definition add_owned_game :: "string option \<Rightarrow> string \<Rightarrow> central \<Rightarrow> central" where
  "add_owned_game username game_name st =
     (if \<not> truthy username then st
      else st\<lparr>users := map (\<lambda>u.
             if Some (u_username u) = username \<and> game_name \<notin> set (u_games_own u)
             then u\<lparr>u_games_own := u_games_own u @ [game_name]\<rparr> else u) (users st)\<rparr>)"

definition list_games :: "central \<Rightarrow> Game list" where
  "list_games st = games st"

definition get_game :: "central \<Rightarrow> string \<Rightarrow> Game option" where
  "get_game st game_name = find (\<lambda>g. g_game_name g = game_name) (games st)"

text \<open>
  \<open>update_first P f xs\<close> rewrites the first element satisfying \<open>P\<close>: the loop with
  \<^verbatim>\<open>break\<close> in \<^verbatim>\<open>upsert_game\<close> followed by the in-place \<^verbatim>\<open>existing.update\<close>.
\<close>

fun update_first :: "('a \<Rightarrow> bool) \<Rightarrow> ('a \<Rightarrow> 'a) \<Rightarrow> 'a list \<Rightarrow> 'a list" where
  "update_first P f [] = []"
| "update_first P f (x # xs) = (if P x then f x # xs else x # update_first P f xs)"

definition upsert_existing ::
  "string \<Rightarrow> string \<Rightarrow> string \<Rightarrow> string option \<Rightarrow> string \<Rightarrow> path option \<Rightarrow>
   int option \<Rightarrow> int option \<Rightarrow> Game \<Rightarrow> Game" where
  "upsert_existing game_name version filename author description extracted_path
       min_players max_players existing =
     existing\<lparr>
       g_version := version,
       g_filename := filename,
       g_storage_path := [game_name, filename],
       g_description := (if description \<noteq> [] then description else g_description existing),
       g_author := (if truthy (g_author existing) then g_author existing else author),
       g_extracted_path :=
         (case extracted_path of Some p \<Rightarrow> Some p | None \<Rightarrow> g_extracted_path existing),
       g_min_players :=
         (if truthy_int min_players then the min_players
          else if g_min_players existing \<noteq> 0 then g_min_players existing else 1),
       g_max_players :=
         (if truthy_int max_players then the max_players
          else if g_max_players existing \<noteq> 0 then g_max_players existing else 4)\<rparr>"

definition upsert_new ::
  "string \<Rightarrow> string \<Rightarrow> string \<Rightarrow> string option \<Rightarrow> string \<Rightarrow> path option \<Rightarrow>
   int option \<Rightarrow> int option \<Rightarrow> Game" where
  "upsert_new game_name version filename author description extracted_path
       min_players max_players =
     \<lparr>g_game_name = game_name,
      g_version = version,
      g_filename = filename,
      g_storage_path = [game_name, filename],
      g_description = description,
      g_author = author,
      g_extracted_path = extracted_path,
      g_min_players = (if truthy_int min_players then the min_players else 1),
      g_max_players = (if truthy_int max_players then the max_players else 4)\<rparr>"

definition upsert_game ::
  "string \<Rightarrow> string \<Rightarrow> string \<Rightarrow> string option \<Rightarrow> string \<Rightarrow> path option \<Rightarrow>
   int option \<Rightarrow> int option \<Rightarrow> central \<Rightarrow> Game \<times> central" where
  "upsert_game game_name version filename author description extracted_path
       min_players max_players st =
     (case find (\<lambda>g. g_game_name g = game_name) (games st) of
        Some existing \<Rightarrow>
          (let g' = upsert_existing game_name version filename author description
                      extracted_path min_players max_players existing
           in (g', add_owned_game author game_name
                 (st\<lparr>games := update_first (\<lambda>g. g_game_name g = game_name)
                    (upsert_existing game_name version filename author description
                       extracted_path min_players max_players) (games st)\<rparr>)))
      | None \<Rightarrow>
          (let g' = upsert_new game_name version filename author description
                      extracted_path min_players max_players
           in (g', add_owned_game author game_name (st\<lparr>games := games st @ [g']\<rparr>))))"

definition list_comments :: "central \<Rightarrow> string \<Rightarrow> Comment list" where
  "list_comments st game_name = filter (\<lambda>c. c_game_name c = game_name) (comments st)"

definition add_comment :: "string \<Rightarrow> string \<Rightarrow> int \<Rightarrow> string \<Rightarrow> central \<Rightarrow> central" where
  "add_comment game_name username score comment st =
     st\<lparr>comments :=
        filter (\<lambda>c. \<not> (c_game_name c = game_name \<and> c_username c = username)) (comments st)
        @ [\<lparr>c_game_name = game_name, c_username = username, c_score = score,
            c_comment = comment\<rparr>]\<rparr>"

text \<open>
  \<^verbatim>\<open>shutil.rmtree(d, ignore_errors=True)\<close>: everything at or below a directory \<open>d\<close>
  goes; on a path that is not a directory the error is swallowed and nothing changes.
\<close>

definition rmtree :: "path \<Rightarrow> central \<Rightarrow> central" where
  "rmtree d st =
     (if d \<in> dirs st
      then st\<lparr>files := (\<lambda>p. if is_under d p then None else files st p),
              dirs := {p \<in> dirs st. \<not> is_under d p}\<rparr>
      else st)"

definition remove_game :: "string \<Rightarrow> string option \<Rightarrow> central \<Rightarrow> (bool \<times> string option) \<times> central" where
  "remove_game game_name author st =
     (case find (\<lambda>g. g_game_name g = game_name) (games st) of
        None \<Rightarrow> ((False, Some ''GAME_NOT_FOUND''), st)
      | Some target \<Rightarrow>
          if truthy author \<and> truthy (g_author target) \<and> g_author target \<noteq> author
          then ((False, Some ''NOT_OWNER''), st)
          else ((True, None),
            rmtree [game_name]
              (st\<lparr>games := filter (\<lambda>g. g_game_name g \<noteq> game_name) (games st),
                  users := map (\<lambda>u. u\<lparr>u_games := filter (\<lambda>g. g \<noteq> game_name) (u_games u),
                                       u_games_own := filter (\<lambda>g. g \<noteq> game_name) (u_games_own u)\<rparr>)
                             (users st),
                  comments := filter (\<lambda>c. c_game_name c \<noteq> game_name) (comments st)\<rparr>)))"

text \<open>
  The state after \<^verbatim>\<open>initialize_storage\<close> on an empty data directory, with no
  connection, no lobby and no child.
\<close>

definition central_init :: central where
  "central_init =
     \<lparr>users = [], games = [], comments = [], files = Map.empty, dirs = {[]}, lobbies = [],
      clients = Map.empty, active_usernames = {}, ctx_username = Map.empty, spawned = []\<rparr>"

text \<open>A series of \<^verbatim>\<open>upsert_game\<close> calls, each with its eight arguments.\<close>

type_synonym upsert_args =
  "string \<times> string \<times> string \<times> string option \<times> string \<times> path option \<times> int option \<times> int option"

fun upsert_call :: "upsert_args \<Rightarrow> central \<Rightarrow> central" where
  "upsert_call (game_name, version, filename, author, description, extracted_path,
       min_players, max_players) st =
     snd (upsert_game game_name version filename author description extracted_path
            min_players max_players st)"

fun upsert_all :: "upsert_args list \<Rightarrow> central \<Rightarrow> central" where
  "upsert_all [] st = st"
| "upsert_all (c # cs) st = upsert_all cs (upsert_call c st)"

section \<open>Python dictionaries in insertion order\<close>

fun dict_set :: "'k \<Rightarrow> 'v \<Rightarrow> ('k \<times> 'v) list \<Rightarrow> ('k \<times> 'v) list" where
  "dict_set k v [] = [(k, v)]"
| "dict_set k v (p # ps) = (if fst p = k then (k, v) # ps else p # dict_set k v ps)"

definition dict_pop :: "'k \<Rightarrow> ('k \<times> 'v) list \<Rightarrow> ('k \<times> 'v) list" where
  "dict_pop k d = filter (\<lambda>p. fst p \<noteq> k) d"

definition dict_get :: "('k \<times> 'v) list \<Rightarrow> 'k \<Rightarrow> 'v option" where
  "dict_get d k = map_of d k"

section \<open>Central directory server (central\_lobby\_server.py)\<close>

text \<open>
  What the handlers obtain from the Python runtime and the operating system is a
  parameter, collected in \<open>env\<close>:
  \<^item> \<open>unzip\<close>: what \<^verbatim>\<open>zipfile.ZipFile(path).extractall(dir)\<close> does with the bytes of an
    archive: the members it wrote, and whether it raised;
  \<^item> \<open>cfg_description\<close>: the \<^verbatim>\<open>description\<close> key of a \<^verbatim>\<open>game_config.json\<close>, empty when
    the file does not parse;
  \<^item> \<open>round1\<close>: the conversion of the exact mean to a float followed by
    \<^verbatim>\<open>round(x, 1)\<close>, \<open>None\<close> when that raises;
  \<^item> \<open>poll_running\<close>: \<^verbatim>\<open>process.poll() is None\<close> for a child;
  \<^item> \<open>port_available\<close>: the answer of \<^verbatim>\<open>_port_available(port)\<close>, that is whether
    \<^verbatim>\<open>bind((HOST, port))\<close> succeeded on a transient socket;
  \<^item> \<open>popen\<close>: the child started by \<^verbatim>\<open>subprocess.Popen\<close>, \<open>None\<close> for \<^verbatim>\<open>OSError\<close>;
  \<^item> \<open>dir_size\<close>: what \<^verbatim>\<open>os.path.getsize\<close> answers for a directory;
  \<^item> \<open>HOST\<close> and \<open>LOBBY_BASE_PORT\<close>: the module globals set from the command line.
\<close>

datatype extract_outcome =
    Extracted "(path \<times> bytes) list"
  | ExtractFailed "(path \<times> bytes) list"

record env =
  unzip :: "bytes \<Rightarrow> extract_outcome"
  cfg_description :: "bytes \<Rightarrow> string"
  round1 :: "rat \<Rightarrow> rat option"
  poll_running :: "nat \<Rightarrow> bool"
  port_available :: "int \<Rightarrow> bool"
  popen :: "nat option"
  dir_size :: nat
  HOST :: string
  LOBBY_BASE_PORT :: int

text \<open>
  A request field that the handler passes to \<^verbatim>\<open>int()\<close>: absent (or \<^verbatim>\<open>null\<close>), a JSON
  integer, or a value on which \<^verbatim>\<open>int()\<close> raises \<^verbatim>\<open>TypeError\<close> or \<^verbatim>\<open>ValueError\<close>.
\<close>

datatype int_field = FieldMissing | FieldInt int | FieldNotInt

datatype reply_data =
    UsernameData string
  | GamesData "(Game \<times> (string \<times> int) option) list"
  | GameDetailData Game "(string \<times> int) option" "Comment list" "rat option"
  | DownloadHeader string string nat string
  | CommentsData string "Comment list" "rat option"
  | GameNameData string
  | UploadData string string path path
  | LaunchData string string int
  | StoppedData string
  | DeletedData string

text \<open>
  \<open>make_ok\<close> and \<open>make_error\<close> keep type, action and data or error code; the free-text
  message of an error is left out. What a handler puts on the socket is a list of
  events: JSON lines and raw chunks; \<open>Uncaught\<close> marks an exception that leaves the
  handler, after which \<^verbatim>\<open>handle_client\<close> closes the connection.
\<close>

datatype response =
    Ok string string reply_data
  | Error string string string

definition make_ok :: "string \<Rightarrow> string \<Rightarrow> reply_data \<Rightarrow> response" where
  "make_ok req_type action data = Ok req_type action data"

definition make_error :: "string \<Rightarrow> string \<Rightarrow> string \<Rightarrow> response" where
  "make_error req_type action code = Error req_type action code"

datatype event = Json response | Raw bytes | Uncaught string

subsection \<open>handle\_auth\<close>

datatype auth_request =
    Register "string option" "string option"
  | Login "string option" "string option"
  | Logout
  | AuthOther string

definition handle_auth :: "nat \<Rightarrow> auth_request \<Rightarrow> central \<Rightarrow> event list \<times> central" where
  "handle_auth conn message st =
     (case message of
        Register username password \<Rightarrow>
          if \<not> truthy username \<or> \<not> truthy password
          then ([Json (make_error ''auth'' ''register'' ''INVALID_REQUEST'')], st)
          else (case register_user (the username) (the password) st of
                  ((True, _), st') \<Rightarrow>
                    ([Json (make_ok ''auth'' ''register'' (UsernameData (the username)))], st')
                | ((False, code), st') \<Rightarrow>
                    ([Json (make_error ''auth'' ''register''
                        (if truthy code then the code else ''REGISTER_FAILED''))], st'))
      | Login username password \<Rightarrow>
          if \<not> truthy username \<or> \<not> truthy password
          then ([Json (make_error ''auth'' ''login'' ''INVALID_REQUEST'')], st)
          else if the username \<in> active_usernames st
          then ([Json (make_error ''auth'' ''login'' ''USER_ALREADY_LOGGED_IN'')], st)
          else if authenticate_user st (the username) (the password)
          then ([Json (make_ok ''auth'' ''login'' (UsernameData (the username)))],
                st\<lparr>ctx_username := (ctx_username st)(conn \<mapsto> username),
                    clients := (clients st)(conn \<mapsto> username),
                    active_usernames := insert (the username) (active_usernames st)\<rparr>)
          else ([Json (make_error ''auth'' ''login'' ''INVALID_CREDENTIALS'')], st)
      | Logout \<Rightarrow>
          (case ctx_username st conn of
             Some (Some u) \<Rightarrow>
               if u \<noteq> []
               then ([Json (make_ok ''auth'' ''logout'' (UsernameData u))],
                     st\<lparr>clients := (clients st)(conn := None),
                         active_usernames := active_usernames st - {u},
                         ctx_username := (ctx_username st)(conn \<mapsto> None)\<rparr>)
               else ([Json (make_error ''auth'' ''logout'' ''NOT_LOGGED_IN'')], st)
           | _ \<Rightarrow> ([Json (make_error ''auth'' ''logout'' ''NOT_LOGGED_IN'')], st))
      | AuthOther action \<Rightarrow>
          ([Json (make_error ''auth'' (if action \<noteq> [] then action else ''unknown'')
              ''UNSUPPORTED'')], st))"

text \<open>
  The connection's life in \<^verbatim>\<open>handle_client\<close>: on accept the socket enters \<^verbatim>\<open>clients\<close>
  with no user and gets a fresh context; the \<^verbatim>\<open>finally\<close> block, reached on EOF from
  the peer and on any exception alike, pops the socket from \<^verbatim>\<open>clients\<close> and closes the
  context.
\<close>

definition client_connected :: "nat \<Rightarrow> central \<Rightarrow> central" where
  "client_connected conn st =
     st\<lparr>clients := (clients st)(conn \<mapsto> None), ctx_username := (ctx_username st)(conn \<mapsto> None)\<rparr>"

definition client_closed :: "nat \<Rightarrow> central \<Rightarrow> central" where
  "client_closed conn st =
     st\<lparr>clients := (clients st)(conn := None), ctx_username := (ctx_username st)(conn := None)\<rparr>"

text \<open>The username a handler sees in \<^verbatim>\<open>ctx.username\<close>.\<close>

definition ctx_user :: "central \<Rightarrow> nat \<Rightarrow> string option" where
  "ctx_user st conn = (case ctx_username st conn of Some u \<Rightarrow> u | None \<Rightarrow> None)"

subsection \<open>handle\_store\<close>

datatype store_request =
    ListGames
  | GetGameDetail "string option"
  | DownloadGameFile "string option"
  | AddComment "string option" int_field string
  | MarkOwned "string option"
  | StoreOther string

text \<open>\<^verbatim>\<open>statistics.mean\<close> on integers is exact before its conversion to a float.\<close>

definition mean :: "int list \<Rightarrow> rat" where
  "mean xs = of_int (sum_list xs) / of_nat (length xs)"

text \<open>
  The rating of both handlers: \<^verbatim>\<open>None\<close> for no comments, otherwise
  \<^verbatim>\<open>round(mean([c.get("score", 0) for c in comments]), 1)\<close>, and \<^verbatim>\<open>None\<close> again when
  that raises.
\<close>

definition rating :: "env \<Rightarrow> Comment list \<Rightarrow> rat option" where
  "rating e cs = (if cs = [] then None else round1 e (mean (map c_score cs)))"

text \<open>The loop \<^verbatim>\<open>chunk = fh.read(n)\<close> until the chunk is empty.\<close>

function read_chunks :: "nat \<Rightarrow> bytes \<Rightarrow> bytes list" where
  "read_chunks n bs =
     (if n = 0 \<or> bs = [] then [] else take n bs # read_chunks n (drop n bs))"
  by pat_completeness auto
termination
  by (relation "measure (\<lambda>(n, bs). length bs)") auto

declare read_chunks.simps [simp del]

definition path_exists :: "central \<Rightarrow> path \<Rightarrow> bool" where
  "path_exists st p = (files st p \<noteq> None \<or> p \<in> dirs st)"

definition lobby_info :: "central \<Rightarrow> string \<Rightarrow> (string \<times> int) option" where
  "lobby_info st game_name =
     (case dict_get (lobbies st) game_name of
        None \<Rightarrow> None
      | Some lobby \<Rightarrow> Some (l_host lobby, l_port lobby))"

definition handle_store :: "env \<Rightarrow> nat \<Rightarrow> store_request \<Rightarrow> central \<Rightarrow> event list \<times> central" where
  "handle_store e conn message st =
     (if \<not> truthy (ctx_user st conn)
      then ([Json (make_error ''store''
               (case message of
                  ListGames \<Rightarrow> ''list_games''
                | GetGameDetail _ \<Rightarrow> ''get_game_detail''
                | DownloadGameFile _ \<Rightarrow> ''download_game_file''
                | AddComment _ _ _ \<Rightarrow> ''add_comment''
                | MarkOwned _ \<Rightarrow> ''mark_owned''
                | StoreOther action \<Rightarrow> (if action \<noteq> [] then action else ''unknown''))
               ''NOT_AUTHENTICATED'')], st)
      else case message of
        ListGames \<Rightarrow>
          ([Json (make_ok ''store'' ''list_games''
              (GamesData (map (\<lambda>game. (game, lobby_info st (g_game_name game))) (list_games st))))],
           st)
      | GetGameDetail game_name \<Rightarrow>
          (case (if truthy game_name then get_game st (the game_name) else None) of
             None \<Rightarrow> ([Json (make_error ''store'' ''get_game_detail'' ''GAME_NOT_FOUND'')], st)
           | Some game \<Rightarrow>
               (let comments = list_comments st (the game_name);
                    rating_val = rating e comments;
                    resp =
                      (if g_description game \<noteq> [] then game
                       else case g_extracted_path game of
                         None \<Rightarrow> game
                       | Some extracted \<Rightarrow>
                           (case files st (extracted @ [''game_config.json'']) of
                              None \<Rightarrow> game
                            | Some cfg \<Rightarrow> game\<lparr>g_description := cfg_description e cfg\<rparr>))
                in ([Json (make_ok ''store'' ''get_game_detail''
                      (GameDetailData resp (lobby_info st (the game_name)) comments rating_val))],
                    st)))
      | DownloadGameFile game_name \<Rightarrow>
          if \<not> truthy game_name
          then ([Json (make_error ''store'' ''download_game_file'' ''INVALID_REQUEST'')], st)
          else (case get_game st (the game_name) of
             None \<Rightarrow>
               ([Json (make_error ''store'' ''download_game_file'' ''GAME_OR_VERSION_NOT_FOUND'')],
                st)
           | Some game \<Rightarrow>
               (let storage_path = g_storage_path game in
                if storage_path = [] \<or> \<not> path_exists st storage_path
                then ([Json (make_error ''store'' ''download_game_file''
                         ''GAME_OR_VERSION_NOT_FOUND'')], st)
                else case files st storage_path of
                  None \<Rightarrow>
                    ([Json (make_ok ''store'' ''download_game_file''
                        (DownloadHeader (the game_name) (last storage_path) (dir_size e)
                           (g_version game))),
                      Uncaught ''IsADirectoryError''], st)
                | Some content \<Rightarrow>
                    (Json (make_ok ''store'' ''download_game_file''
                        (DownloadHeader (the game_name) (last storage_path) (length content)
                           (g_version game)))
                      # map Raw (read_chunks 4096 content),
                     record_download (ctx_user st conn) (the game_name) st)))
      | AddComment game_name score comment_text \<Rightarrow>
          if \<not> truthy game_name \<or> score = FieldMissing
          then ([Json (make_error ''store'' ''add_comment'' ''INVALID_REQUEST'')], st)
          else (case score of
             FieldInt score_int \<Rightarrow>
               (let st' = add_comment (the game_name)
                            (if truthy (ctx_user st conn) then the (ctx_user st conn)
                             else ''anonymous'')
                            score_int comment_text st;
                    updated = list_comments st' (the game_name)
                in ([Json (make_ok ''store'' ''add_comment''
                      (CommentsData (the game_name) updated (rating e updated)))], st'))
           | _ \<Rightarrow> ([Json (make_error ''store'' ''add_comment'' ''INVALID_SCORE'')], st))
      | MarkOwned game_name \<Rightarrow>
          if \<not> truthy game_name
          then ([Json (make_error ''store'' ''mark_owned'' ''INVALID_REQUEST'')], st)
          else ([Json (make_ok ''store'' ''mark_owned'' (GameNameData (the game_name)))],
                record_download (ctx_user st conn) (the game_name) st)
      | StoreOther action \<Rightarrow>
          ([Json (make_error ''store'' (if action \<noteq> [] then action else ''unknown'')
              ''UNSUPPORTED'')], st))"

subsection \<open>Port allocator\<close>

text \<open>
  \<^verbatim>\<open>_find_free_port\<close> is the same loop in the central server and in the lobby server
  (which passes the host along and keeps the taken ports in a list). The bind check
  \<^verbatim>\<open>_port_available\<close> is a parameter that answers for every port it is asked about; a
  \<^verbatim>\<open>bind\<close> that raises something other than \<^verbatim>\<open>OSError\<close>, as it does for a number that
  is no port, is outside the model. The loop \<^verbatim>\<open>while True: ... port += 1\<close> has no bound
  of its own, so it is a partial function: \<open>None\<close> is the run that never returns.
\<close>

partial_function (option) find_free_port ::
  "(int \<Rightarrow> bool) \<Rightarrow> int \<Rightarrow> int set \<Rightarrow> int option" where
  "find_free_port available port taken =
     (if port \<notin> taken \<and> available port then Some port
      else find_free_port available (port + 1) taken)"

subsection \<open>handle\_dev\<close>

datatype 'a outcome = Returned 'a | Raised string

record upload_header =
  h_game_name :: "string option"
  h_version :: "string option"
  h_filename :: "string option"
  h_filesize :: "int option"
  h_min_players :: int_field
  h_max_players :: int_field

datatype dev_request =
    UploadGameFile upload_header bytes
  | LaunchGameServer "string option"
  | StopGameServer "string option"
  | DeleteGame "string option"
  | DevOther string

text \<open>
  \<open>read_exact incoming sz\<close>: \<open>incoming\<close> is what the peer sends on the socket after
  the header, up to its end of file.
\<close>

definition read_exact :: "bytes \<Rightarrow> int \<Rightarrow> bytes option" where
  "read_exact incoming sz =
     (if sz \<le> 0 then Some []
      else if int (length incoming) < sz then None
      else Some (take (nat sz) incoming))"

text \<open>
  The player bounds of an upload: \<open>None\<close> when an \<^verbatim>\<open>int()\<close> conversion raises.
\<close>

definition players_range :: "int_field \<Rightarrow> int_field \<Rightarrow> (int \<times> int) option" where
  "players_range min_players max_players =
     (case min_players of
        FieldNotInt \<Rightarrow> None
      | _ \<Rightarrow>
        (let min_players_int = (case min_players of FieldInt n \<Rightarrow> n | _ \<Rightarrow> 1) in
         case max_players of
           FieldNotInt \<Rightarrow> None
         | FieldInt n \<Rightarrow> Some (min_players_int, n)
         | FieldMissing \<Rightarrow> Some (min_players_int, max min_players_int 4)))"

text \<open>Members written by an extraction land below the extraction directory.\<close>

definition write_member :: "path \<Rightarrow> (path \<rightharpoonup> bytes) \<Rightarrow> path \<times> bytes \<Rightarrow> (path \<rightharpoonup> bytes)" where
  "write_member d f m = f(d @ fst m \<mapsto> snd m)"

definition write_tree :: "path \<Rightarrow> (path \<times> bytes) list \<Rightarrow> central \<Rightarrow> central" where
  "write_tree d members st = st\<lparr>files := foldl (write_member d) (files st) members\<rparr>"

definition ensure_game_storage_dir :: "string \<Rightarrow> central \<Rightarrow> path \<times> central" where
  "ensure_game_storage_dir game_name st = ([game_name], st\<lparr>dirs := insert [game_name] (dirs st)\<rparr>)"

text \<open>
  \<^verbatim>\<open>upload_game_file\<close> in three parts. First the checks on the header, which end in
  an error code or in the values the rest works with.
\<close>

definition upload_checks ::
  "nat \<Rightarrow> upload_header \<Rightarrow> central \<Rightarrow> string + (string \<times> string \<times> string \<times> int \<times> int \<times> int)" where
  "upload_checks conn hdr st =
     (if \<not> (truthy (h_game_name hdr) \<and> truthy (h_version hdr) \<and> truthy (h_filename hdr)
            \<and> h_filesize hdr \<noteq> None)
      then Inl ''INVALID_REQUEST''
      else case players_range (h_min_players hdr) (h_max_players hdr) of
        None \<Rightarrow> Inl ''INVALID_PLAYERS''
      | Some (min_players_int, max_players_int) \<Rightarrow>
        if min_players_int < 1 \<or> max_players_int < min_players_int
        then Inl ''INVALID_PLAYERS''
        else if (case get_game st (the (h_game_name hdr)) of
                   None \<Rightarrow> False
                 | Some existing \<Rightarrow>
                     truthy (g_author existing) \<and> g_author existing \<noteq> ctx_user st conn)
        then Inl ''GAME_EXISTS_OTHER_AUTHOR''
        else Inr (the (h_game_name hdr), the (h_version hdr), the (h_filename hdr),
                  the (h_filesize hdr), min_players_int, max_players_int))"

text \<open>
  Then the payload goes to \<^verbatim>\<open>dest_path\<close>, an existing \<^verbatim>\<open>extracted\<close> directory is removed
  and the directory is made anew. \<^verbatim>\<open>open\<close> raises when \<^verbatim>\<open>dest_path\<close> is a directory,
  \<^verbatim>\<open>mkdir\<close> when \<^verbatim>\<open>extract_dir\<close> is a regular file; the first component of the result
  is that exception, if any.
\<close>

definition prepare_extraction ::
  "path \<Rightarrow> path \<Rightarrow> bytes \<Rightarrow> central \<Rightarrow> string option \<times> central" where
  "prepare_extraction dest_path extract_dir payload st =
     (if dest_path \<in> dirs st then (Some ''IsADirectoryError'', st)
      else
      (let st2 = st\<lparr>files := (files st)(dest_path \<mapsto> payload)\<rparr>;
           st3 = (if path_exists st2 extract_dir then rmtree extract_dir st2 else st2)
       in if files st3 extract_dir \<noteq> None then (Some ''FileExistsError'', st3)
          else (None, st3\<lparr>dirs := insert extract_dir (dirs st3)\<rparr>)))"

definition upload_game_file ::
  "env \<Rightarrow> nat \<Rightarrow> upload_header \<Rightarrow> bytes \<Rightarrow> central \<Rightarrow> event list \<times> central" where
  "upload_game_file e conn hdr incoming st =
     (case upload_checks conn hdr st of
        Inl code \<Rightarrow> ([Json (make_error ''dev'' ''upload_game_file'' code)], st)
      | Inr (game_name, version, filename, filesize, min_players_int, max_players_int) \<Rightarrow>
        (let (storage_dir, st1) = ensure_game_storage_dir game_name st;
             dest_path = storage_dir @ [filename];
             extract_dir = storage_dir @ [''extracted'']
         in
         case read_exact incoming filesize of
           None \<Rightarrow> ([Json (make_error ''dev'' ''upload_game_file'' ''UPLOAD_FAILED'')], st1)
         | Some payload \<Rightarrow>
           if int (length payload) \<noteq> filesize
           then ([Json (make_error ''dev'' ''upload_game_file'' ''UPLOAD_FAILED'')], st1)
           else
           (case prepare_extraction dest_path extract_dir payload st1 of
              (Some err, st3) \<Rightarrow> ([Uncaught err], st3)
            | (None, st4) \<Rightarrow>
              (case unzip e payload of
                 ExtractFailed members \<Rightarrow>
                   ([Json (make_error ''dev'' ''upload_game_file'' ''UNZIP_FAILED'')],
                    write_tree extract_dir members st4)
               | Extracted members \<Rightarrow>
                   (let st5 = write_tree extract_dir members st4;
                        description =
                          (case files st5 (extract_dir @ [''game_config.json'']) of
                             None \<Rightarrow> []
                           | Some cfg \<Rightarrow> cfg_description e cfg);
                        (game_obj, st6) =
                          upsert_game game_name version filename (ctx_user st conn) description
                            (Some extract_dir) (Some min_players_int) (Some max_players_int) st5
                    in ([Json (make_ok ''dev'' ''upload_game_file''
                           (UploadData game_name version dest_path extract_dir))], st6))))))"

text \<open>
  \<^verbatim>\<open>_ensure_extracted_package\<close>: the extracted directory of the record when it is still
  on disk, otherwise a fresh extraction of the stored archive next to it.
\<close>

definition ensure_extracted_package ::
  "env \<Rightarrow> Game option \<Rightarrow> central \<Rightarrow> path option outcome \<times> central" where
  "ensure_extracted_package e game_obj st =
     (case game_obj of
        None \<Rightarrow> (Returned None, st)
      | Some g \<Rightarrow>
        if (case g_extracted_path g of None \<Rightarrow> False | Some ep \<Rightarrow> path_exists st ep)
        then (Returned (g_extracted_path g), st)
        else if g_storage_path g = [] \<or> \<not> path_exists st (g_storage_path g)
        then (Returned None, st)
        else
        (let extract_dir = butlast (g_storage_path g) @ [''extracted''];
             st1 = (if path_exists st extract_dir then rmtree extract_dir st else st)
         in
         if files st1 extract_dir \<noteq> None then (Raised ''FileExistsError'', st1)
         else
         (let st2 = st1\<lparr>dirs := insert extract_dir (dirs st1)\<rparr> in
          case files st2 (g_storage_path g) of
            None \<Rightarrow> (Returned None, st2)
          | Some archive \<Rightarrow>
            (case unzip e archive of
               ExtractFailed members \<Rightarrow> (Returned None, write_tree extract_dir members st2)
             | Extracted members \<Rightarrow>
                 (Returned (Some extract_dir),
                  snd (upsert_game (g_game_name g) (g_version g) (g_filename g) (g_author g)
                         (g_description g) (Some extract_dir) None None
                         (write_tree extract_dir members st2)))))))"

definition start_lobby_if_needed ::
  "env \<Rightarrow> string \<Rightarrow> Game option \<Rightarrow> central \<Rightarrow>
   ((string + string \<times> int) outcome \<times> central) option" where
  "start_lobby_if_needed e game_name game_obj st =
     (let game_obj = (case game_obj of None \<Rightarrow> get_game st game_name | Some g \<Rightarrow> Some g);
          existing = dict_get (lobbies st) game_name
      in
      if (case existing of None \<Rightarrow> False | Some lobby \<Rightarrow> poll_running e (l_process lobby))
      then Some (Returned (Inr (l_host (the existing), l_port (the existing))), st)
      else case ensure_extracted_package e game_obj st of
        (Raised err, st1) \<Rightarrow> Some (Raised err, st1)
      | (Returned None, st1) \<Rightarrow>
          Some (Returned (Inl ''Game package not extracted on server; upload again''), st1)
      | (Returned (Some extracted_path), st1) \<Rightarrow>
          (case find_free_port (port_available e) (LOBBY_BASE_PORT e)
                  (set (map (\<lambda>(_, l). l_port l) (lobbies st1))) of
             None \<Rightarrow> None
           | Some port \<Rightarrow>
               (case popen e of
                  None \<Rightarrow> Some (Returned (Inl ''Failed to start lobby process''), st1)
                | Some proc \<Rightarrow>
                    Some (Returned (Inr (HOST e, port)),
                      st1\<lparr>lobbies := dict_set game_name
                        \<lparr>l_game_name = game_name, l_process = proc, l_host = HOST e,
                         l_port = port\<rparr> (lobbies st1),
                          spawned := spawned st1 @ [proc]\<rparr>))))"

definition stop_lobby :: "string \<Rightarrow> central \<Rightarrow> (bool \<times> string option) \<times> central" where
  "stop_lobby game_name st =
     (case dict_get (lobbies st) game_name of
        None \<Rightarrow> ((False, Some ''Lobby not running''), st)
      | Some lobby \<Rightarrow> ((True, None), st\<lparr>lobbies := dict_pop game_name (lobbies st)\<rparr>))"

definition launch_game_server ::
  "env \<Rightarrow> nat \<Rightarrow> string option \<Rightarrow> central \<Rightarrow> (event list \<times> central) option" where
  "launch_game_server e conn game_name st =
     (if \<not> truthy game_name
      then Some ([Json (make_error ''dev'' ''launch_game_server'' ''INVALID_REQUEST'')], st)
      else case get_game st (the game_name) of
        None \<Rightarrow> Some ([Json (make_error ''dev'' ''launch_game_server'' ''GAME_NOT_FOUND'')], st)
      | Some game \<Rightarrow>
          (case start_lobby_if_needed e (the game_name) (Some game) st of
             None \<Rightarrow> None
           | Some (Raised err, st') \<Rightarrow> Some ([Uncaught err], st')
           | Some (Returned (Inr (host, port)), st') \<Rightarrow>
               Some ([Json (make_ok ''dev'' ''launch_game_server''
                        (LaunchData (the game_name) host port))], st')
           | Some (Returned (Inl msg), st') \<Rightarrow>
               Some ([Json (make_error ''dev'' ''launch_game_server'' ''LAUNCH_FAILED'')], st')))"

definition delete_game :: "nat \<Rightarrow> string option \<Rightarrow> central \<Rightarrow> event list \<times> central" where
  "delete_game conn game_name st =
     (if \<not> truthy game_name
      then ([Json (make_error ''dev'' ''delete_game'' ''INVALID_REQUEST'')], st)
      else case get_game st (the game_name) of
        None \<Rightarrow> ([Json (make_error ''dev'' ''delete_game'' ''GAME_NOT_FOUND'')], st)
      | Some existing \<Rightarrow>
          if truthy (g_author existing) \<and> g_author existing \<noteq> ctx_user st conn
          then ([Json (make_error ''dev'' ''delete_game'' ''NOT_OWNER'')], st)
          else (case remove_game (the game_name) (ctx_user st conn) st of
                  ((True, _), st') \<Rightarrow>
                    ([Json (make_ok ''dev'' ''delete_game'' (DeletedData (the game_name)))],
                     snd (stop_lobby (the game_name) st'))
                | ((False, err), st') \<Rightarrow>
                    ([Json (make_error ''dev'' ''delete_game''
                        (if truthy err then the err else ''DELETE_FAILED''))], st')))"

definition handle_dev ::
  "env \<Rightarrow> nat \<Rightarrow> dev_request \<Rightarrow> central \<Rightarrow> (event list \<times> central) option" where
  "handle_dev e conn message st =
     (if \<not> truthy (ctx_user st conn)
      then Some ([Json (make_error ''dev''
               (case message of
                  UploadGameFile _ _ \<Rightarrow> ''upload_game_file''
                | LaunchGameServer _ \<Rightarrow> ''launch_game_server''
                | StopGameServer _ \<Rightarrow> ''stop_game_server''
                | DeleteGame _ \<Rightarrow> ''delete_game''
                | DevOther action \<Rightarrow> (if action \<noteq> [] then action else ''unknown''))
               ''NOT_AUTHENTICATED'')], st)
      else case message of
        UploadGameFile hdr incoming \<Rightarrow> Some (upload_game_file e conn hdr incoming st)
      | LaunchGameServer game_name \<Rightarrow> launch_game_server e conn game_name st
      | StopGameServer game_name \<Rightarrow>
          if \<not> truthy game_name
          then Some ([Json (make_error ''dev'' ''stop_game_server'' ''INVALID_REQUEST'')], st)
          else (case stop_lobby (the game_name) st of
                  ((True, _), st') \<Rightarrow>
                    Some ([Json (make_ok ''dev'' ''stop_game_server''
                             (StoppedData (the game_name)))], st')
                | ((False, _), st') \<Rightarrow>
                    Some ([Json (make_error ''dev'' ''stop_game_server'' ''STOP_FAILED'')], st'))
      | DeleteGame game_name \<Rightarrow> Some (delete_game conn game_name st)
      | DevOther action \<Rightarrow>
          Some ([Json (make_error ''dev'' (if action \<noteq> [] then action else ''unknown'')
                  ''UNSUPPORTED'')], st))"

section \<open>Game lobby server (game\_lobby\_server.py)\<close>

text \<open>Decimal digits of a number, for \<^verbatim>\<open>f"R{room_counter}"\<close> and \<^verbatim>\<open>f"player_{n}"\<close>.\<close>

fun str_nat :: "nat \<Rightarrow> string" where
  "str_nat n =
     (if n < 10 then [''0123456789'' ! n]
      else str_nat (n div 10) @ [''0123456789'' ! (n mod 10)])"

declare str_nat.simps [simp del]

record Room =
  room_id :: string
  r_game_name :: string
  r_version :: string
  host_username :: string
  max_players :: int
  room_server_host :: string
  room_server_port :: int
  process :: nat
  r_players :: "string list"
  status :: string

record lobby =
  rooms :: "(string \<times> Room) list"
  room_counter :: nat

text \<open>
  What one request meets outside the lobby's tables: whether a port binds, which of
  the three candidate entry scripts exist, what \<^verbatim>\<open>subprocess.Popen\<close> gives, and the
  arguments \<^verbatim>\<open>handle_client\<close> passes down from the command line.
\<close>

record lobby_env =
  room_port_available :: "int \<Rightarrow> bool"
  configured_entry_exists :: bool
  default_entry_exists :: bool
  shared_entry_exists :: bool
  spawn :: "nat option"
  lobby_host :: string
  room_port_start :: int
  lobby_game_name :: string

datatype lobby_data =
    RoomsData "Room list"
  | RoomAddress string string string string int
  | LeftData string

datatype lobby_event =
    LobbyOk string lobby_data
  | LobbyError string string
  | LobbyUncaught string

datatype lobby_request =
    ListRooms
  | CreateRoom "string option" int_field "string option"
  | JoinRoom "string option" "string option"
  | LeaveRoom "string option" "string option"
  | LobbyOther string

definition lobby_init :: lobby where
  "lobby_init = \<lparr>rooms = [], room_counter = 0\<rparr>"

definition next_room_id :: "lobby \<Rightarrow> string \<times> lobby" where
  "next_room_id st =
     (''R'' @ str_nat (room_counter st + 1), st\<lparr>room_counter := room_counter st + 1\<rparr>)"

definition handle_list_rooms :: "lobby \<Rightarrow> lobby_event list \<times> lobby" where
  "handle_list_rooms st = ([LobbyOk ''list_rooms'' (RoomsData (map snd (rooms st)))], st)"

text \<open>\<^verbatim>\<open>_monitor_room\<close>, once the child of the room has exited.\<close>

definition monitor_room :: "string \<Rightarrow> lobby \<Rightarrow> lobby" where
  "monitor_room rid st =
     (case dict_get (rooms st) rid of
        None \<Rightarrow> st
      | Some room \<Rightarrow> st\<lparr>rooms := dict_set rid (room\<lparr>status := ''closed''\<rparr>) (rooms st)\<rparr>)"

definition handle_create_room ::
  "lobby_env \<Rightarrow> string option \<Rightarrow> int_field \<Rightarrow> string option \<Rightarrow> lobby \<Rightarrow>
   (lobby_event list \<times> lobby) option" where
  "handle_create_room e username_field max_players_field version_field st =
     (let username = (if truthy username_field then the username_field else ''host'') in
      case max_players_field of
        FieldNotInt \<Rightarrow> Some ([LobbyUncaught ''ValueError''], st)
      | _ \<Rightarrow>
        (let max_players_int =
               (case max_players_field of FieldInt n \<Rightarrow> (if n = 0 then 2 else n) | _ \<Rightarrow> 2);
             version = (if truthy version_field then the version_field else ''latest'');
             (rid, st1) = next_room_id st
         in
         if \<exists>existing \<in> set (map snd (rooms st1)).
              status existing = ''waiting'' \<and> username \<in> set (r_players existing)
         then Some ([LobbyError ''create_room'' ''ALREADY_IN_ROOM''], st1)
         else case find_free_port (room_port_available e) (room_port_start e)
                     (set (map (\<lambda>(_, room). room_server_port room) (rooms st1))) of
           None \<Rightarrow> None
         | Some port \<Rightarrow>
             if \<not> (configured_entry_exists e \<or> default_entry_exists e \<or> shared_entry_exists e)
             then Some ([LobbyError ''create_room'' ''ROOM_SERVER_MISSING''], st1)
             else (case spawn e of
                None \<Rightarrow> Some ([LobbyError ''create_room'' ''ROOM_SERVER_FAILED''], st1)
              | Some proc \<Rightarrow>
                  Some ([LobbyOk ''create_room''
                           (RoomAddress rid (lobby_game_name e) version (lobby_host e) port)],
                    st1\<lparr>rooms := dict_set rid
                      \<lparr>room_id = rid, r_game_name = lobby_game_name e, r_version = version,
                       host_username = username, max_players = max_players_int,
                       room_server_host = lobby_host e, room_server_port = port,
                       process = proc, r_players = [username], status = ''waiting''\<rparr>
                      (rooms st1)\<rparr>))))"

definition handle_join_room ::
  "string option \<Rightarrow> string option \<Rightarrow> lobby \<Rightarrow> lobby_event list \<times> lobby" where
  "handle_join_room room_id_field username_field st =
     (if \<not> truthy room_id_field \<or> \<not> truthy username_field
      then ([LobbyError ''join_room'' ''INVALID_REQUEST''], st)
      else
      (let rid = the room_id_field; username = the username_field in
       if \<exists>existing \<in> set (map snd (rooms st)).
            status existing = ''waiting'' \<and> room_id existing \<noteq> rid
            \<and> username \<in> set (r_players existing)
       then ([LobbyError ''join_room'' ''ALREADY_IN_ROOM''], st)
       else case dict_get (rooms st) rid of
         None \<Rightarrow> ([LobbyError ''join_room'' ''ROOM_NOT_FOUND''], st)
       | Some room \<Rightarrow>
           if status room \<noteq> ''waiting''
           then ([LobbyError ''join_room'' ''ROOM_NOT_JOINABLE''], st)
           else if int (length (r_players room)) \<ge> max_players room
                   \<and> username \<notin> set (r_players room)
           then ([LobbyError ''join_room'' ''ROOM_FULL''], st)
           else
           ([LobbyOk ''join_room''
               (RoomAddress (room_id room) (r_game_name room) (r_version room)
                  (room_server_host room) (room_server_port room))],
            if username \<notin> set (r_players room)
            then st\<lparr>rooms := dict_set rid (room\<lparr>r_players := r_players room @ [username]\<rparr>)
                                (rooms st)\<rparr>
            else st)))"

definition handle_leave_room ::
  "string option \<Rightarrow> string option \<Rightarrow> lobby \<Rightarrow> lobby_event list \<times> lobby" where
  "handle_leave_room username_field room_id_field st =
     (if \<not> truthy username_field
      then ([LobbyError ''leave_room'' ''INVALID_REQUEST''], st)
      else
      (let username = the username_field;
           leave = (\<lambda>room. room\<lparr>r_players := filter (\<lambda>p. p \<noteq> username) (r_players room)\<rparr>);
           (removed, st') =
             (if truthy room_id_field
              then (case dict_get (rooms st) (the room_id_field) of
                      None \<Rightarrow> (False, st)
                    | Some room \<Rightarrow>
                        if username \<in> set (r_players room)
                        then (True, st\<lparr>rooms := dict_set (the room_id_field) (leave room)
                                                   (rooms st)\<rparr>)
                        else (False, st))
              else (\<exists>room \<in> set (map snd (rooms st)). username \<in> set (r_players room),
                    st\<lparr>rooms := map (\<lambda>(k, room).
                          (k, if username \<in> set (r_players room) then leave room else room))
                        (rooms st)\<rparr>))
       in if removed
          then ([LobbyOk ''leave_room''
                   (LeftData (if truthy room_id_field then the room_id_field else []))], st')
          else ([LobbyError ''leave_room'' ''NOT_IN_ROOM''], st')))"

definition handle_message ::
  "lobby_env \<Rightarrow> lobby_request \<Rightarrow> lobby \<Rightarrow> (lobby_event list \<times> lobby) option" where
  "handle_message e message st =
     (case message of
        ListRooms \<Rightarrow> Some (handle_list_rooms st)
      | CreateRoom username max_players_field version \<Rightarrow>
          handle_create_room e username max_players_field version st
      | JoinRoom rid username \<Rightarrow> Some (handle_join_room rid username st)
      | LeaveRoom username rid \<Rightarrow> Some (handle_leave_room username rid st)
      | LobbyOther action \<Rightarrow>
          Some ([LobbyError (if action \<noteq> [] then action else ''unknown'') ''UNSUPPORTED''], st))"

text \<open>
  A history of the lobby: requests, each with the surroundings it meets, and exits of
  room children in between. \<open>None\<close> when a request never returns.
\<close>

datatype lobby_step = Request lobby_env lobby_request | ChildExit string

fun lobby_run :: "lobby_step list \<Rightarrow> lobby \<Rightarrow> lobby option" where
  "lobby_run [] st = Some st"
| "lobby_run (Request e message # steps) st =
     (case handle_message e message st of
        None \<Rightarrow> None
      | Some (_, st') \<Rightarrow> lobby_run steps st')"
| "lobby_run (ChildExit rid # steps) st = lobby_run steps (monitor_room rid st)"

text \<open>The waiting rooms whose player list holds a username.\<close>

definition waiting_rooms_of :: "lobby \<Rightarrow> string \<Rightarrow> Room list" where
  "waiting_rooms_of st username =
     filter (\<lambda>room. status room = ''waiting'' \<and> username \<in> set (r_players room))
       (map snd (rooms st))"

section \<open>Grid-game room server (TTT\_GUI/v1/run\_room\_server.py)\<close>

text \<open>
  \<^verbatim>\<open>players\<close>, \<^verbatim>\<open>connections\<close> and \<^verbatim>\<open>play_again_votes\<close> are dictionaries in insertion
  order; a connection is a number. The board is a list of nine marks; every
  operation keeps its length, so the indexed reads stay in range.
\<close>

record GameState =
  board :: "string list"
  players :: "(string \<times> string) list"
  connections :: "(string \<times> nat) list"
  turn :: "string option"
  winner :: "string option"
  active :: bool
  play_again_votes :: "(string \<times> bool) list"

definition GameState_init :: GameState where
  "GameState_init =
     \<lparr>board = replicate 9 [], players = [], connections = [], turn = None, winner = None,
      active = True, play_again_votes = []\<rparr>"

definition add_player :: "string \<Rightarrow> nat \<Rightarrow> GameState \<Rightarrow> string option \<times> GameState" where
  "add_player username conn st =
     (if length (players st) \<ge> 2 then (None, st)
      else
      (let symbol = (if ''X'' \<notin> set (map snd (players st)) then ''X'' else ''O'');
           st1 = st\<lparr>players := dict_set username symbol (players st),
                    connections := dict_set username conn (connections st)\<rparr>;
           st2 = (if length (players st1) = 2 \<and> \<not> truthy (turn st1)
                  then st1\<lparr>turn := Some (fst (hd (players st1)))\<rparr> else st1)
       in (Some symbol, st2)))"

definition remove_player :: "string \<Rightarrow> GameState \<Rightarrow> GameState" where
  "remove_player username st =
     (let st1 = st\<lparr>players := dict_pop username (players st),
                   connections := dict_pop username (connections st),
                   play_again_votes := dict_pop username (play_again_votes st)\<rparr>
      in if Some username = turn st1 then st1\<lparr>turn := None\<rparr> else st1)"

definition reset :: "GameState \<Rightarrow> GameState" where
  "reset st =
     st\<lparr>board := replicate 9 [],
        winner := None,
        play_again_votes := [],
        turn :=
          (case find (\<lambda>(user, mark). mark = ''X'') (players st) of
             Some (user, _) \<Rightarrow> if user \<noteq> [] then Some user
                               else (case players st of [] \<Rightarrow> None | p # _ \<Rightarrow> Some (fst p))
           | None \<Rightarrow> (case players st of [] \<Rightarrow> None | p # _ \<Rightarrow> Some (fst p)))\<rparr>"

definition win_lines :: "(nat \<times> nat \<times> nat) list" where
  "win_lines = [(0, 1, 2), (3, 4, 5), (6, 7, 8), (0, 3, 6), (1, 4, 7), (2, 5, 8), (0, 4, 8),
                (2, 4, 6)]"

definition check_winner :: "string list \<Rightarrow> string option" where
  "check_winner b =
     (case find (\<lambda>(x, y, z). b ! x \<noteq> [] \<and> b ! x = b ! y \<and> b ! y = b ! z) win_lines of
        None \<Rightarrow> None
      | Some (x, _, _) \<Rightarrow> Some (b ! x))"

record state_payload =
  p_board :: "string list"
  p_turn :: "string option"
  p_winner :: "string option"
  p_players :: "(string \<times> string) list"
  p_players_needed :: int
  p_play_again_waiting :: bool

datatype room_payload =
    JoinOk string string
  | JoinError
  | State state_payload

text \<open>
  \<open>Sent c m\<close>: the line \<open>m\<close> went out on connection \<open>c\<close>; \<open>RoomUncaught\<close>: an exception
  left the message loop. \<open>send_fails c\<close> says that a send on \<open>c\<close> raises.
\<close>

datatype room_event = Sent nat room_payload | RoomUncaught string

definition broadcast ::
  "(nat \<Rightarrow> bool) \<Rightarrow> room_payload \<Rightarrow> GameState \<Rightarrow> room_event list \<times> GameState" where
  "broadcast send_fails payload st =
     (let dead = map fst (filter (\<lambda>(user, conn). send_fails conn) (connections st));
          sent = map (\<lambda>(user, conn). Sent conn payload)
                   (filter (\<lambda>(user, conn). \<not> send_fails conn) (connections st));
          st1 = foldl (\<lambda>s user. remove_player user
                         (s\<lparr>connections := dict_pop user (connections s)\<rparr>)) st dead;
          st2 = (if dead \<noteq> [] \<and> length (players st1) < 2
                 then st1\<lparr>board := replicate 9 [], winner := None, play_again_votes := [],
                          turn := None\<rparr>
                 else st1)
      in (sent, st2))"

definition board_full :: "string list \<Rightarrow> bool" where
  "board_full b = list_all (\<lambda>cell. cell \<noteq> []) b"

definition send_state :: "(nat \<Rightarrow> bool) \<Rightarrow> GameState \<Rightarrow> room_event list \<times> GameState" where
  "send_state send_fails st =
     broadcast send_fails
       (State \<lparr>p_board = board st, p_turn = turn st, p_winner = winner st,
               p_players = players st,
               p_players_needed = max 0 (2 - int (length (players st))),
               p_play_again_waiting = (truthy (winner st) \<or> board_full (board st))\<rparr>)
       st"

datatype room_msg =
    Join "string option"
  | Move int_field
  | PlayAgain bool
  | RoomOther

text \<open>
  The \<^verbatim>\<open>finally\<close> block of \<^verbatim>\<open>handle_client\<close>: \<open>username\<close> is the handler's local
  variable, set by the last \<^verbatim>\<open>join\<close> seen on the connection.
\<close>

definition client_finally ::
  "(nat \<Rightarrow> bool) \<Rightarrow> string option \<Rightarrow> GameState \<Rightarrow> room_event list \<times> GameState" where
  "client_finally send_fails username st =
     (if truthy username then send_state send_fails (remove_player (the username) st)
      else ([], st))"

text \<open>
  One pass of the message loop. The result holds what was sent, the local
  \<open>username\<close> afterwards, whether the loop goes on (\<open>False\<close> after \<^verbatim>\<open>break\<close> or an
  exception, in which case \<open>client_finally\<close> has run), and the state.
\<close>

definition apply_move :: "string \<Rightarrow> nat \<Rightarrow> GameState \<Rightarrow> GameState" where
  "apply_move username idx st =
     (let st1 = st\<lparr>board := (board st)[idx :=
                     (case dict_get (players st) username of None \<Rightarrow> [] | Some mark \<Rightarrow> mark)]\<rparr>;
          others = filter (\<lambda>u. u \<noteq> username) (map fst (players st1));
          st2 = st1\<lparr>turn := (case others of [] \<Rightarrow> None | u # _ \<Rightarrow> Some u)\<rparr>
      in case check_winner (board st2) of
           Some win_symbol \<Rightarrow>
             (case find (\<lambda>(u, mark). mark = win_symbol) (players st2) of
                Some (u, _) \<Rightarrow> st2\<lparr>winner := Some u\<rparr>
              | None \<Rightarrow> st2)
         | None \<Rightarrow> if board_full (board st2) then st2\<lparr>winner := Some []\<rparr> else st2)"

definition after_break ::
  "(nat \<Rightarrow> bool) \<Rightarrow> room_event list \<Rightarrow> string option \<Rightarrow> GameState \<Rightarrow>
   room_event list \<times> string option \<times> bool \<times> GameState" where
  "after_break send_fails sent username st =
     (let (sent', st') = client_finally send_fails username st
      in (sent @ sent', username, False, st'))"

definition room_message ::
  "(nat \<Rightarrow> bool) \<Rightarrow> nat \<Rightarrow> string option \<Rightarrow> room_msg \<Rightarrow> GameState \<Rightarrow>
   room_event list \<times> string option \<times> bool \<times> GameState" where
  "room_message send_fails conn username msg st =
     (case msg of
        Join name \<Rightarrow>
          (let username' = (if truthy name then the name
                            else ''player_'' @ str_nat (length (players st) + 1))
           in case add_player username' conn st of
             (None, st1) \<Rightarrow>
               if send_fails conn
               then after_break send_fails [RoomUncaught ''OSError''] (Some username') st1
               else after_break send_fails [Sent conn JoinError] (Some username') st1
           | (Some symbol, st1) \<Rightarrow>
               if send_fails conn
               then after_break send_fails [RoomUncaught ''OSError''] (Some username') st1
               else (let (sent, st2) = send_state send_fails st1
                     in (Sent conn (JoinOk symbol username') # sent, Some username', True, st2)))
      | Move cell \<Rightarrow>
          if \<not> truthy username then ([], username, True, st)
          else (case cell of
             FieldNotInt \<Rightarrow> after_break send_fails [RoomUncaught ''ValueError''] username st
           | _ \<Rightarrow>
             (let idx = (case cell of FieldInt n \<Rightarrow> n | _ \<Rightarrow> - 1) in
              if length (players st) < 2 then ([], username, True, st)
              else if truthy (winner st) \<or> board_full (board st) then ([], username, True, st)
              else if idx < 0 \<or> idx \<ge> 9 then ([], username, True, st)
              else if turn st \<noteq> username then ([], username, True, st)
              else if board st ! nat idx \<noteq> [] then ([], username, True, st)
              else (let (sent, st1) = send_state send_fails (apply_move (the username) (nat idx) st)
                    in (sent, username, True, st1))))
      | PlayAgain again \<Rightarrow>
          if \<not> truthy username then ([], username, True, st)
          else
          (let st1 = st\<lparr>play_again_votes := dict_set (the username) again (play_again_votes st)\<rparr>
           in if length (play_again_votes st1) < length (players st1)
              then ([], username, True, st1)
              else if \<not> list_all (\<lambda>(_, v). v) (play_again_votes st1)
              then after_break send_fails [] username (st1\<lparr>active := False\<rparr>)
              else (let (sent, st2) = send_state send_fails (reset st1)
                    in (sent, username, True, st2)))
      | RoomOther \<Rightarrow> ([], username, True, st))"

section \<open>Reference definitions and sample data\<close>


text \<open>
  Sample surroundings for concrete runs: an extractor that accepts the one archive
  \<open>''PK-demo''\<close> (holding a room server script) and rejects every other payload, a
  rounding that returns its argument, children that stay alive, ports that bind.
\<close>

definition env_demo :: env where
  "env_demo =
     \<lparr>unzip = (\<lambda>b. if b = ''PK-demo''
                    then Extracted [([''run_room_server.py''], ''print(1)'')]
                    else ExtractFailed []),
      cfg_description = (\<lambda>b. []),
      round1 = Some,
      poll_running = (\<lambda>p. True),
      port_available = (\<lambda>p. True),
      popen = Some 1,
      dir_size = 0,
      HOST = ''localhost'',
      LOBBY_BASE_PORT = 11000\<rparr>"

text \<open>Connection 2 registers \<open>alice\<close> and logs in as her.\<close>

definition alice_session :: central where
  "alice_session =
     snd (handle_auth 2 (Login (Some ''alice'') (Some ''pw''))
       (snd (handle_auth 2 (Register (Some ''alice'') (Some ''pw''))
          (client_connected 2 central_init))))"


text \<open>
  A history of the central server as far as sessions go: a connection is accepted,
  sends an \<^verbatim>\<open>auth\<close> message, or reaches the \<^verbatim>\<open>finally\<close> block of \<^verbatim>\<open>handle_client\<close>
  (end of file from the peer, or any error on the socket).
\<close>

datatype session_event = Accept nat | AuthMessage nat auth_request | Eof nat

fun serve_step :: "session_event \<Rightarrow> central \<Rightarrow> event list \<times> central" where
  "serve_step (Accept conn) st = ([], client_connected conn st)"
| "serve_step (AuthMessage conn message) st = handle_auth conn message st"
| "serve_step (Eof conn) st = ([], client_closed conn st)"

fun serve :: "session_event list \<Rightarrow> central \<Rightarrow> event list \<times> central" where
  "serve [] st = ([], st)"
| "serve (ev # evs) st =
     (fst (serve_step ev st) @ fst (serve evs (snd (serve_step ev st))),
      snd (serve evs (snd (serve_step ev st))))"

text \<open>
  \<open>alice\<close> uploads the archive \<open>''PK-demo''\<close> as game \<open>g\<close>, and then launches its
  lobby.
\<close>

definition upload_demo_header :: upload_header where
  "upload_demo_header =
     \<lparr>h_game_name = Some ''g'', h_version = Some ''1'', h_filename = Some ''g.zip'',
      h_filesize = Some 7, h_min_players = FieldInt 2, h_max_players = FieldInt 4\<rparr>"

definition uploaded_demo :: central where
  "uploaded_demo = snd (upload_game_file env_demo 2 upload_demo_header ''PK-demo'' alice_session)"

definition launched_demo :: central where
  "launched_demo =
     (case handle_dev env_demo 2 (LaunchGameServer (Some ''g'')) uploaded_demo of
        Some (_, st) \<Rightarrow> st
      | None \<Rightarrow> uploaded_demo)"

text \<open>
  A grid game in progress: \<open>alice\<close> joins on connection 1 and \<open>bob\<close> on connection 2,
  then \<open>alice\<close> marks cell 0. No send fails.
\<close>

definition state_of :: "room_event list \<times> string option \<times> bool \<times> GameState \<Rightarrow> GameState" where
  "state_of r = snd (snd (snd r))"

definition ttt_seated :: GameState where
  "ttt_seated =
     state_of (room_message (\<lambda>c. False) 2 None (Join (Some ''bob''))
       (state_of (room_message (\<lambda>c. False) 1 None (Join (Some ''alice'')) GameState_init)))"

definition ttt_after_move :: GameState where
  "ttt_after_move =
     state_of (room_message (\<lambda>c. False) 1 (Some ''alice'') (Move (FieldInt 0)) ttt_seated)"

text \<open>
  What every history of the lobby keeps: the keys of \<^verbatim>\<open>rooms\<close> are distinct, every room
  is stored under its own \<^verbatim>\<open>room_id\<close>, and no username is in two waiting rooms.
\<close>

definition lobby_inv :: "lobby \<Rightarrow> bool" where
  "lobby_inv st =
     (distinct (map fst (rooms st))
      \<and> list_all (\<lambda>(k, room). room_id room = k) (rooms st)
      \<and> (\<forall>username. length (waiting_rooms_of st username) \<le> 1))"

text \<open>
  Sample surroundings of a lobby request: every port binds, the package brings its
  room server script, and the child gets the given process number.
\<close>

definition lobby_env_demo :: "nat \<Rightarrow> lobby_env" where
  "lobby_env_demo proc =
     \<lparr>room_port_available = (\<lambda>p. True), configured_entry_exists = True,
      default_entry_exists = True, shared_entry_exists = False, spawn = Some proc,
      lobby_host = ''localhost'', room_port_start = 12000, lobby_game_name = ''g''\<rparr>"

text \<open>The room \<open>R1\<close> that \<open>alice\<close> creates in the sample lobby, with its players.\<close>

definition room_demo :: "string list \<Rightarrow> Room" where
  "room_demo ps =
     \<lparr>room_id = ''R1'', r_game_name = ''g'', r_version = ''latest'',
      host_username = ''alice'', max_players = 2, room_server_host = ''localhost'',
      room_server_port = 12000, process = 1, r_players = ps, status = ''waiting''\<rparr>"

section \<open>Verification\<close>

subsection \<open>The author of a game record\<close>

lemma games_add_owned_game: "games (add_owned_game a g st) = games st"
  by (simp add: add_owned_game_def)

lemma find_update_first:
  assumes "\<And>x. k (f x) = k x"
  shows "find (\<lambda>x. k x = g) (update_first (\<lambda>x. k x = gn) f xs) =
         map_option (\<lambda>e. if gn = g then f e else e) (find (\<lambda>x. k x = g) xs)"
  using assms by (induction xs) (auto simp: option.map_ident)

lemma upsert_existing_name:
  "g_game_name (upsert_existing gn v f a d ep mn mx e) = g_game_name e"
  by (simp add: upsert_existing_def)

lemma upsert_existing_author:
  "truthy (g_author e) \<Longrightarrow> g_author (upsert_existing gn v f a d ep mn mx e) = g_author e"
  by (simp add: upsert_existing_def)

lemma find_append_other:
  "k y \<noteq> g \<Longrightarrow> find (\<lambda>x. k x = g) (xs @ [y]) = find (\<lambda>x. k x = g) xs"
  by (induction xs) auto

lemma find_Some_name: "find (\<lambda>x. k x = g) xs = Some e \<Longrightarrow> k e = g"
  by (induction xs) (auto split: if_splits)

lemma upsert_game_keeps_author:
  assumes "get_game st g = Some e" and "truthy (g_author e)"
  shows "\<exists>e'. get_game (snd (upsert_game gn v f a d ep mn mx st)) g = Some e'
              \<and> g_author e' = g_author e"
proof (cases "find (\<lambda>x. g_game_name x = gn) (games st)")
  case None
  with assms have "gn \<noteq> g" by (auto simp: get_game_def)
  then have "g_game_name (upsert_new gn v f a d ep mn mx) \<noteq> g"
    by (simp add: upsert_new_def)
  with None assms show ?thesis
    by (simp add: upsert_game_def get_game_def Let_def games_add_owned_game find_append_other)
next
  case (Some ex)
  show ?thesis
  proof (cases "gn = g")
    case True
    with Some assms have "ex = e" by (simp add: get_game_def)
    with Some True assms show ?thesis
      by (simp add: upsert_game_def get_game_def Let_def games_add_owned_game
          find_update_first [where k = g_game_name, OF upsert_existing_name] upsert_existing_author)
  next
    case False
    with Some assms show ?thesis
      by (simp add: upsert_game_def get_game_def Let_def games_add_owned_game
          find_update_first [where k = g_game_name, OF upsert_existing_name])
  qed
qed

lemma find_append_new:
  "find P xs = None \<Longrightarrow> P y \<Longrightarrow> find P (xs @ [y]) = Some y"
  by (induction xs) (auto split: if_splits)

lemma upsert_game_creates_author:
  assumes "get_game st g = None"
  shows "\<exists>e. get_game (snd (upsert_game g v f a d ep mn mx st)) g = Some e \<and> g_author e = a"
proof -
  have "g_game_name (upsert_new g v f a d ep mn mx) = g"
    by (simp add: upsert_new_def)
  with assms have "find (\<lambda>x. g_game_name x = g) (games st @ [upsert_new g v f a d ep mn mx])
        = Some (upsert_new g v f a d ep mn mx)"
    by (simp add: get_game_def find_append_new)
  moreover have "g_author (upsert_new g v f a d ep mn mx) = a"
    by (simp add: upsert_new_def)
  ultimately show ?thesis using assms
    by (simp add: upsert_game_def get_game_def Let_def games_add_owned_game)
qed

lemma upsert_all_keeps_author:
  "get_game st g = Some e \<Longrightarrow> truthy (g_author e) \<Longrightarrow>
   \<exists>e'. get_game (upsert_all calls st) g = Some e' \<and> g_author e' = g_author e"
proof (induction calls arbitrary: st e)
  case Nil
  then show ?case by simp
next
  case (Cons c cs)
  obtain gn v f a d ep mn mx where c: "c = (gn, v, f, a, d, ep, mn, mx)"
    by (cases c) auto
  from Cons.prems upsert_game_keeps_author [of st g e gn v f a d ep mn mx]
  obtain e1 where e1: "get_game (upsert_call c st) g = Some e1" "g_author e1 = g_author e"
    by (auto simp: c)
  with Cons.prems Cons.IH [of "upsert_call c st" e1] show ?case
    by auto
qed

text \<open>
  C10. A stored author that is non-empty survives every later \<^verbatim>\<open>upsert_game\<close>, whatever
  author the call names; hence the author of a game is the non-empty username given
  when \<^verbatim>\<open>upsert_game\<close> first created its record.
\<close>

theorem upsert_game_author_fixed:
  "(get_game st g = Some e \<and> truthy (g_author e) \<longrightarrow>
      (\<exists>e'. get_game (upsert_all calls st) g = Some e' \<and> g_author e' = g_author e))
   \<and> (get_game st g = None \<and> a \<noteq> [] \<longrightarrow>
      (\<exists>e'. get_game (upsert_all calls
                 (snd (upsert_game g v f (Some a) d ep mn mx st))) g = Some e'
            \<and> g_author e' = Some a))"
proof (intro conjI impI)
  assume "get_game st g = Some e \<and> truthy (g_author e)"
  then show "\<exists>e'. get_game (upsert_all calls st) g = Some e' \<and> g_author e' = g_author e"
    using upsert_all_keeps_author by blast
next
  assume h: "get_game st g = None \<and> a \<noteq> []"
  then obtain e0 where e0: "get_game (snd (upsert_game g v f (Some a) d ep mn mx st)) g = Some e0"
      "g_author e0 = Some a"
    using upsert_game_creates_author [of st g v f "Some a" d ep mn mx] by auto
  with h have "truthy (g_author e0)" by simp
  from upsert_all_keeps_author [OF e0(1) this, of calls] e0(2)
  show "\<exists>e'. get_game (upsert_all calls (snd (upsert_game g v f (Some a) d ep mn mx st))) g
               = Some e' \<and> g_author e' = Some a"
    by auto
qed

theorem upsert_game_author_fixed_witness:
  "get_game (snd (upsert_game ''g'' ''1'' ''g.zip'' (Some ''alice'') [] None None None
       central_init)) ''g''
     = Some (upsert_new ''g'' ''1'' ''g.zip'' (Some ''alice'') [] None None None)
   \<and> truthy (g_author (upsert_new ''g'' ''1'' ''g.zip'' (Some ''alice'') [] None None None))
   \<and> get_game central_init ''g'' = None \<and> ''alice'' \<noteq> []
   \<and> (\<exists>e'. get_game (upsert_all [(''g'', ''2'', ''g2.zip'', Some ''bob'', ''new'', None, None, None)]
              (snd (upsert_game ''g'' ''1'' ''g.zip'' (Some ''alice'') [] None None None
                 central_init))) ''g'' = Some e'
         \<and> g_author e' = Some ''alice'')"
proof -
  let ?st = "snd (upsert_game ''g'' ''1'' ''g.zip'' (Some ''alice'') [] None None None
       central_init)"
  let ?e = "upsert_new ''g'' ''1'' ''g.zip'' (Some ''alice'') [] None None None"
  let ?calls = "[(''g'', ''2'', ''g2.zip'', Some ''bob'', ''new'', None, None, None)]"
  have h0: "get_game central_init ''g'' = None"
    by (simp add: get_game_def central_init_def)
  have h1: "get_game ?st ''g'' = Some ?e"
    by (simp add: get_game_def central_init_def upsert_game_def upsert_new_def Let_def
        add_owned_game_def)
  have h2: "truthy (g_author ?e)"
    by (simp add: upsert_new_def)
  have h3: "g_author ?e = Some ''alice''"
    by (simp add: upsert_new_def)
  from upsert_game_author_fixed [of ?st "''g''" ?e ?calls] h1 h2 h3
  have "\<exists>e'. get_game (upsert_all ?calls ?st) ''g'' = Some e' \<and> g_author e' = Some ''alice''"
    by simp
  with h0 h1 h2 show ?thesis by simp
qed

subsection \<open>Comments and ratings\<close>

lemma alice_session_eq:
  "alice_session =
     \<lparr>users = [\<lparr>u_username = ''alice'', u_password = ''pw'', u_games = [], u_games_own = []\<rparr>],
      games = [], comments = [], files = Map.empty, dirs = {[]}, lobbies = [],
      clients = [2 \<mapsto> Some ''alice''], active_usernames = {''alice''},
      ctx_username = [2 \<mapsto> Some ''alice''], spawned = []\<rparr>"
  by (simp add: alice_session_def handle_auth_def client_connected_def central_init_def
      register_user_def authenticate_user_def get_user_def invalid_chars_def make_ok_def)

lemma ctx_user_alice: "ctx_user alice_session 2 = Some ''alice''"
  by (simp add: alice_session_eq ctx_user_def)

text \<open>
  C3. An authenticated \<^verbatim>\<open>add_comment\<close> whose score is any integer, inside 1..5 or not,
  is answered with \<^verbatim>\<open>ok\<close> and the comment is stored with that score: the handler only
  rejects a score that \<^verbatim>\<open>int()\<close> cannot convert.
\<close>

theorem add_comment_stores_any_integer_score:
  assumes "truthy (ctx_user st conn)" and "g \<noteq> []"
  shows "\<exists>cs r st'.
           handle_store e conn (AddComment (Some g) (FieldInt n) txt) st =
             ([Json (Ok ''store'' ''add_comment'' (CommentsData g cs r))], st')
           \<and> \<lparr>c_game_name = g, c_username = the (ctx_user st conn), c_score = n,
               c_comment = txt\<rparr> \<in> set (comments st')"
  using assms by (simp add: handle_store_def make_ok_def add_comment_def Let_def)

theorem add_comment_stores_any_integer_score_witness:
  "truthy (ctx_user alice_session 2) \<and> ''g'' \<noteq> [] \<and>
   (\<exists>cs r st'.
      handle_store env_demo 2 (AddComment (Some ''g'') (FieldInt 7) ''fun'') alice_session =
        ([Json (Ok ''store'' ''add_comment'' (CommentsData ''g'' cs r))], st')
      \<and> \<lparr>c_game_name = ''g'', c_username = ''alice'', c_score = 7, c_comment = ''fun''\<rparr>
          \<in> set (comments st'))"
proof -
  have h: "truthy (ctx_user alice_session 2)"
    by (simp only: ctx_user_alice truthy.simps) simp
  have n: "''g'' \<noteq> []" by simp
  from add_comment_stores_any_integer_score [OF h n, of env_demo 7 "''fun''"]
  have "\<exists>cs r st'.
      handle_store env_demo 2 (AddComment (Some ''g'') (FieldInt 7) ''fun'') alice_session =
        ([Json (Ok ''store'' ''add_comment'' (CommentsData ''g'' cs r))], st')
      \<and> \<lparr>c_game_name = ''g'', c_username = ''alice'', c_score = 7, c_comment = ''fun''\<rparr>
          \<in> set (comments st')"
    by (simp only: ctx_user_alice option.sel)
  with h n show ?thesis by blast
qed












subsection \<open>Sessions and double login\<close>

lemma login_ok_active:
  assumes "handle_auth a (Login (Some u) (Some p)) st = ([Json (Ok ty act d)], st1)"
  shows "u \<in> active_usernames st1 \<and> u \<noteq> []"
  using assms
  by (auto simp: handle_auth_def make_ok_def make_error_def split: if_splits)

lemma active_usernames_client_closed:
  "active_usernames (client_closed a st) = active_usernames st"
  by (simp add: client_closed_def)

lemma login_rejected_when_active:
  assumes "u \<in> active_usernames st" and "u \<noteq> []" and "p \<noteq> []"
  shows "handle_auth b (Login (Some u) (Some p)) st =
           ([Json (Error ''auth'' ''login'' ''USER_ALREADY_LOGGED_IN'')], st)"
  using assms by (simp add: handle_auth_def make_error_def)

text \<open>A logout, in contrast, takes the name out of \<^verbatim>\<open>active_usernames\<close>.\<close>

lemma logout_releases_username:
  assumes "ctx_username st a = Some (Some u)" and "u \<noteq> []"
  shows "u \<notin> active_usernames (snd (handle_auth a Logout st))"
  using assms by (simp add: handle_auth_def)

text \<open>
  C1. After \<open>login(u)\<close> has succeeded on connection \<open>a\<close> and that connection has been
  closed, \<open>u\<close> is still in \<^verbatim>\<open>active_usernames\<close>, and a login as \<open>u\<close> on any connection is
  answered \<^verbatim>\<open>USER_ALREADY_LOGGED_IN\<close>: the \<^verbatim>\<open>finally\<close> block pops the socket from
  \<^verbatim>\<open>clients\<close> and leaves \<^verbatim>\<open>active_usernames\<close> alone.
\<close>

theorem login_after_close_rejected:
  assumes "handle_auth a (Login (Some u) (Some p)) st = ([Json (Ok ty act d)], st1)"
    and "p' \<noteq> []"
  shows "u \<in> active_usernames (client_closed a st1)
       \<and> handle_auth b (Login (Some u) (Some p')) (client_closed a st1) =
           ([Json (Error ''auth'' ''login'' ''USER_ALREADY_LOGGED_IN'')], client_closed a st1)"
  using login_ok_active [OF assms(1)] assms(2)
  by (simp add: active_usernames_client_closed login_rejected_when_active)

theorem login_after_close_rejected_witness:
  "fst (handle_auth 2 (Login (Some ''alice'') (Some ''pw''))
          (snd (serve [Accept 2, Accept 3,
                       AuthMessage 2 (Register (Some ''alice'') (Some ''pw''))] central_init)))
     = [Json (Ok ''auth'' ''login'' (UsernameData ''alice''))]
   \<and> ''pw'' \<noteq> []
   \<and> fst (serve [Accept 2, Accept 3,
               AuthMessage 2 (Register (Some ''alice'') (Some ''pw'')),
               AuthMessage 2 (Login (Some ''alice'') (Some ''pw'')),
               Eof 2,
               AuthMessage 3 (Login (Some ''alice'') (Some ''pw''))] central_init)
     = [Json (Ok ''auth'' ''register'' (UsernameData ''alice'')),
        Json (Ok ''auth'' ''login'' (UsernameData ''alice'')),
        Json (Error ''auth'' ''login'' ''USER_ALREADY_LOGGED_IN'')]"
proof -
  define s0 where "s0 = client_connected 3 (client_connected 2 central_init)"
  define s1 where "s1 = snd (handle_auth 2 (Register (Some ''alice'') (Some ''pw'')) s0)"
  define s2 where "s2 = snd (handle_auth 2 (Login (Some ''alice'') (Some ''pw'')) s1)"
  have pw: "''pw'' \<noteq> []" by simp
  have r1: "fst (handle_auth 2 (Register (Some ''alice'') (Some ''pw'')) s0)
            = [Json (Ok ''auth'' ''register'' (UsernameData ''alice''))]"
    by (simp add: s0_def handle_auth_def client_connected_def central_init_def
        register_user_def invalid_chars_def make_ok_def)
  have r2: "fst (handle_auth 2 (Login (Some ''alice'') (Some ''pw'')) s1)
            = [Json (Ok ''auth'' ''login'' (UsernameData ''alice''))]"
    by (simp add: s1_def s0_def handle_auth_def client_connected_def central_init_def
        register_user_def invalid_chars_def authenticate_user_def get_user_def make_ok_def)
  have login: "handle_auth 2 (Login (Some ''alice'') (Some ''pw'')) s1
               = ([Json (Ok ''auth'' ''login'' (UsernameData ''alice''))], s2)"
    using r2 by (simp add: s2_def prod_eq_iff)
  from login_after_close_rejected [OF login pw, of 3]
  have r3: "fst (handle_auth 3 (Login (Some ''alice'') (Some ''pw'')) (client_closed 2 s2))
            = [Json (Error ''auth'' ''login'' ''USER_ALREADY_LOGGED_IN'')]"
    by simp
  have pre: "snd (serve [Accept 2, Accept 3,
                       AuthMessage 2 (Register (Some ''alice'') (Some ''pw''))] central_init) = s1"
    by (simp add: s1_def s0_def)
  have run: "fst (serve [Accept 2, Accept 3,
               AuthMessage 2 (Register (Some ''alice'') (Some ''pw'')),
               AuthMessage 2 (Login (Some ''alice'') (Some ''pw'')),
               Eof 2,
               AuthMessage 3 (Login (Some ''alice'') (Some ''pw''))] central_init)
      = fst (handle_auth 2 (Register (Some ''alice'') (Some ''pw'')) s0)
        @ fst (handle_auth 2 (Login (Some ''alice'') (Some ''pw'')) s1)
        @ fst (handle_auth 3 (Login (Some ''alice'') (Some ''pw'')) (client_closed 2 s2))"
    by (simp add: s2_def s1_def s0_def)
  show ?thesis
    unfolding pre run r1 r2 r3 using pw by simp
qed

subsection \<open>Port allocator\<close>

lemma find_free_port_returns:
  assumes "n = nat (p - b)" and "b \<le> p" and "p \<notin> T" and "available p"
  shows "\<exists>r. find_free_port available b T = Some r \<and> b \<le> r \<and> r \<le> p \<and> r \<notin> T
             \<and> available r
             \<and> (\<forall>q. b \<le> q \<and> q < r \<longrightarrow> q \<in> T \<or> \<not> available q)"
  using assms
proof (induction n arbitrary: b)
  case 0
  then have "b = p" by simp
  with 0 have "find_free_port available b T = Some b"
    by (subst find_free_port.simps) simp
  with 0 \<open>b = p\<close> show ?case by auto
next
  case (Suc n)
  then have lt: "b < p" by simp
  show ?case
  proof (cases "b \<notin> T \<and> available b")
    case True
    then have "find_free_port available b T = Some b"
      by (subst find_free_port.simps) simp
    with True lt show ?thesis by auto
  next
    case False
    then have step: "find_free_port available b T = find_free_port available (b + 1) T"
      by (subst find_free_port.simps) auto
    from Suc.prems lt have "n = nat (p - (b + 1))" "b + 1 \<le> p" by auto
    from Suc.IH [OF this Suc.prems(3,4)]
    obtain r where r: "find_free_port available (b + 1) T = Some r" "b + 1 \<le> r" "r \<le> p"
        "r \<notin> T" "available r"
        "\<forall>q. b + 1 \<le> q \<and> q < r \<longrightarrow> q \<in> T \<or> \<not> available q"
      by blast
    have "\<forall>q. b \<le> q \<and> q < r \<longrightarrow> q \<in> T \<or> \<not> available q"
    proof (intro allI impI)
      fix q assume q: "b \<le> q \<and> q < r"
      show "q \<in> T \<or> \<not> available q"
      proof (cases "q = b")
        case True
        with False show ?thesis by auto
      next
        case False
        with q have "b + 1 \<le> q \<and> q < r" by simp
        with r(6) show ?thesis by blast
      qed
    qed
    with r step show ?thesis by auto
  qed
qed

text \<open>
  C8. Started at a base port \<open>b\<close> with the set \<open>T\<close> of ports already handed out, and
  given some port \<open>p \<ge> b\<close> outside \<open>T\<close> that passes the bind check, the allocator
  returns, and what it returns is the least port from \<open>b\<close> on that is outside \<open>T\<close> and
  passes the bind check; so it differs from every port in \<open>T\<close>.
\<close>

theorem find_free_port_least:
  assumes "b \<le> p" and "p \<notin> T" and "available p"
  shows "\<exists>r. find_free_port available b T = Some r \<and> b \<le> r \<and> r \<notin> T \<and> available r
             \<and> (\<forall>q. b \<le> q \<and> q < r \<longrightarrow> q \<in> T \<or> \<not> available q)"
  using find_free_port_returns [of "nat (p - b)" p b T available] assms by blast

theorem find_free_port_least_witness:
  "(11000::int) \<le> 11002 \<and> (11002::int) \<notin> {11000} \<and> (11002::int) \<noteq> 11001
   \<and> find_free_port (\<lambda>q. q \<noteq> 11001) 11000 {11000} = Some 11002"
proof -
  from find_free_port_least [of 11000 11002 "{11000}" "\<lambda>q. q \<noteq> 11001"]
  obtain r where r: "find_free_port (\<lambda>q. q \<noteq> 11001) 11000 {11000} = Some r"
      "11000 \<le> r" "r \<notin> {11000}" "r \<noteq> 11001"
      "\<forall>q. 11000 \<le> q \<and> q < r \<longrightarrow> q \<in> {11000} \<or> \<not> q \<noteq> 11001"
    by auto
  from r(5) [rule_format, of 11002] have "\<not> 11002 < r" by auto
  then have "r = 11002" using r(2,3,4) by auto
  with r(1) show ?thesis by simp
qed

subsection \<open>Launching a lobby that is running\<close>

lemma is_under_simps [simp]:
  "is_under [a, b] [c, d] = (a = c \<and> b = d)"
  "is_under [a, b] (c # d # e # r) = (a = c \<and> b = d)"
  "is_under [a, b] [c] = False"
  "is_under [a, b] [] = False"
  by (auto simp: is_under_def)

lemma uploaded_demo_eq:
  "uploaded_demo =
     \<lparr>users = [\<lparr>u_username = ''alice'', u_password = ''pw'', u_games = [],
                u_games_own = [''g'']\<rparr>],
      games = [\<lparr>g_game_name = ''g'', g_version = ''1'', g_filename = ''g.zip'',
                g_storage_path = [''g'', ''g.zip''], g_description = [],
                g_author = Some ''alice'', g_extracted_path = Some [''g'', ''extracted''],
                g_min_players = 2, g_max_players = 4\<rparr>],
      comments = [],
      files = [[''g'', ''g.zip''] \<mapsto> ''PK-demo'',
               [''g'', ''extracted'', ''run_room_server.py''] \<mapsto> ''print(1)''],
      dirs = {[''g'', ''extracted''], [''g''], []},
      lobbies = [],
      clients = [2 \<mapsto> Some ''alice''], active_usernames = {''alice''},
      ctx_username = [2 \<mapsto> Some ''alice''], spawned = []\<rparr>"
  by (simp add: uploaded_demo_def upload_game_file_def upload_checks_def prepare_extraction_def
      upload_demo_header_def alice_session_eq
      players_range_def get_game_def ctx_user_def ensure_game_storage_dir_def read_exact_def
      path_exists_def rmtree_def env_demo_def write_tree_def write_member_def upsert_game_def upsert_new_def
      add_owned_game_def make_ok_def Let_def)

lemma ctx_user_uploaded_demo: "ctx_user uploaded_demo 2 = Some ''alice''"
  by (simp add: uploaded_demo_eq ctx_user_def)

lemma find_free_port_demo: "find_free_port (\<lambda>p. True) 11000 {} = Some 11000"
  by (subst find_free_port.simps) simp

lemma first_launch_demo:
  "handle_dev env_demo 2 (LaunchGameServer (Some ''g'')) uploaded_demo =
     Some ([Json (Ok ''dev'' ''launch_game_server'' (LaunchData ''g'' ''localhost'' 11000))],
           uploaded_demo\<lparr>lobbies := [(''g'', \<lparr>l_game_name = ''g'', l_process = 1,
                                              l_host = ''localhost'', l_port = 11000\<rparr>)],
                          spawned := [1]\<rparr>)"
  unfolding handle_dev_def ctx_user_uploaded_demo
  by (simp add: launch_game_server_def start_lobby_if_needed_def ensure_extracted_package_def
      uploaded_demo_eq get_game_def dict_get_def path_exists_def env_demo_def
      find_free_port_demo make_ok_def Let_def)

lemma launched_demo_eq:
  "launched_demo =
     uploaded_demo\<lparr>lobbies := [(''g'', \<lparr>l_game_name = ''g'', l_process = 1,
                                        l_host = ''localhost'', l_port = 11000\<rparr>)],
                    spawned := [1]\<rparr>"
  by (simp add: launched_demo_def first_launch_demo)

lemma start_lobby_when_running:
  assumes "dict_get (lobbies st) g = Some lobby" and "poll_running e (l_process lobby)"
  shows "start_lobby_if_needed e g game_obj st =
           Some (Returned (Inr (l_host lobby, l_port lobby)), st)"
  using assms by (simp add: start_lobby_if_needed_def Let_def)

text \<open>
  C7. While the lobby entry of a game has a live child, \<^verbatim>\<open>start_lobby_if_needed\<close>
  returns the endpoint of that entry and leaves the whole state as it was: the
  \<^verbatim>\<open>lobbies\<close> table is unchanged and no child is started. The \<^verbatim>\<open>launch_game_server\<close>
  handler of a logged-in session passes that endpoint on in an \<^verbatim>\<open>ok\<close> reply.
\<close>

theorem launch_while_running_idempotent:
  assumes "dict_get (lobbies st) g = Some lobby" and "poll_running e (l_process lobby)"
  shows "start_lobby_if_needed e g game_obj st =
           Some (Returned (Inr (l_host lobby, l_port lobby)), st)
       \<and> (truthy (ctx_user st conn) \<and> g \<noteq> [] \<and> get_game st g \<noteq> None \<longrightarrow>
            handle_dev e conn (LaunchGameServer (Some g)) st =
              Some ([Json (Ok ''dev'' ''launch_game_server''
                             (LaunchData g (l_host lobby) (l_port lobby)))], st))"
proof (intro conjI impI)
  show "start_lobby_if_needed e g game_obj st =
           Some (Returned (Inr (l_host lobby, l_port lobby)), st)"
    using assms by (rule start_lobby_when_running)
next
  assume h: "truthy (ctx_user st conn) \<and> g \<noteq> [] \<and> get_game st g \<noteq> None"
  then obtain game where game: "get_game st g = Some game" by auto
  with h start_lobby_when_running [OF assms, of "Some game"]
  show "handle_dev e conn (LaunchGameServer (Some g)) st =
              Some ([Json (Ok ''dev'' ''launch_game_server''
                             (LaunchData g (l_host lobby) (l_port lobby)))], st)"
    by (simp add: handle_dev_def launch_game_server_def make_ok_def)
qed

theorem launch_while_running_idempotent_witness:
  "dict_get (lobbies launched_demo) ''g'' =
     Some \<lparr>l_game_name = ''g'', l_process = 1, l_host = ''localhost'', l_port = 11000\<rparr>
   \<and> poll_running env_demo 1
   \<and> truthy (ctx_user launched_demo 2) \<and> get_game launched_demo ''g'' \<noteq> None
   \<and> handle_dev env_demo 2 (LaunchGameServer (Some ''g'')) launched_demo =
       Some ([Json (Ok ''dev'' ''launch_game_server'' (LaunchData ''g'' ''localhost'' 11000))],
             launched_demo)
   \<and> spawned launched_demo = [1]"
proof -
  let ?l = "\<lparr>l_game_name = ''g'', l_process = 1, l_host = ''localhost'', l_port = 11000\<rparr>"
  have a: "dict_get (lobbies launched_demo) ''g'' = Some ?l"
    by (simp add: launched_demo_eq dict_get_def)
  have b: "poll_running env_demo (l_process ?l)"
    by (simp add: env_demo_def)
  have c: "truthy (ctx_user launched_demo 2)"
    by (simp add: launched_demo_eq uploaded_demo_eq ctx_user_def)
  have d: "get_game launched_demo ''g'' \<noteq> None"
    by (simp add: launched_demo_eq uploaded_demo_eq get_game_def)
  have e: "spawned launched_demo = [1]"
    by (simp add: launched_demo_eq)
  from launch_while_running_idempotent [OF a b, of None 2, THEN conjunct2] c d
  have "handle_dev env_demo 2 (LaunchGameServer (Some ''g'')) launched_demo =
       Some ([Json (Ok ''dev'' ''launch_game_server'' (LaunchData ''g'' ''localhost'' 11000))],
             launched_demo)"
    by simp
  with a b c d e show ?thesis by simp
qed

subsection \<open>Uploads: failed extraction\<close>

lemma files_add_owned_game [simp]: "files (add_owned_game a g st) = files st"
  by (simp add: add_owned_game_def)

lemma files_upsert_game [simp]:
  "files (snd (upsert_game g v f a d ep mn mx st)) = files st"
  by (simp add: upsert_game_def Let_def split: option.splits)






lemma other_fields_write_tree [simp]:
  "users (write_tree d ms st) = users st"
  "games (write_tree d ms st) = games st"
  "comments (write_tree d ms st) = comments st"
  "dirs (write_tree d ms st) = dirs st"
  "lobbies (write_tree d ms st) = lobbies st"
  by (simp_all add: write_tree_def)

lemma other_fields_rmtree [simp]:
  "users (rmtree d st) = users st"
  "games (rmtree d st) = games st"
  "comments (rmtree d st) = comments st"
  "lobbies (rmtree d st) = lobbies st"
  by (simp_all add: rmtree_def)


lemma files_rmtree_inside:
  "d \<in> dirs st \<Longrightarrow> files (rmtree d st) (d @ rel) = None"
  by (simp add: rmtree_def is_under_def)








subsection \<open>Uploads: round trip\<close>








lemma handle_auth_keeps_packages:
  "games (snd (handle_auth conn message st)) = games st
   \<and> files (snd (handle_auth conn message st)) = files st"
  by (cases message)
     (auto simp: handle_auth_def register_user_def Let_def split: option.splits if_splits)




subsection \<open>Grid game: a player disconnects\<close>

lemma broadcast_no_failure:
  assumes "\<forall>c. \<not> send_fails c"
  shows "broadcast send_fails payload st =
           (map (\<lambda>(user, conn). Sent conn payload) (connections st), st)"
proof -
  from assms have "filter (\<lambda>(user, conn). send_fails conn) (connections st) = []"
    by (auto simp: filter_empty_conv)
  moreover from assms have
    "filter (\<lambda>(user, conn). \<not> send_fails conn) (connections st) = connections st"
    by (auto simp: filter_id_conv)
  ultimately show ?thesis
    by (simp add: broadcast_def Let_def)
qed

text \<open>
  C4. When a player's connection ends and no send fails, \<^verbatim>\<open>handle_client\<close> removes the
  player from \<^verbatim>\<open>players\<close>, \<^verbatim>\<open>connections\<close> and \<^verbatim>\<open>play_again_votes\<close> and broadcasts the
  state to the connections that remain, but that is all it does: the board and the
  winner stay as they were, and the turn is only cleared when it was the leaver's.
  The reset of the board sits in \<^verbatim>\<open>broadcast\<close> and runs only for a failed send.
\<close>

theorem disconnect_leaves_board:
  assumes "\<forall>c. \<not> send_fails c" and "u \<noteq> []"
  shows "client_finally send_fails (Some u) st =
           (map (\<lambda>(user, conn). Sent conn
                  (State \<lparr>p_board = board st,
                          p_turn = (if turn st = Some u then None else turn st),
                          p_winner = winner st,
                          p_players = dict_pop u (players st),
                          p_players_needed = max 0 (2 - int (length (dict_pop u (players st)))),
                          p_play_again_waiting = (truthy (winner st) \<or> board_full (board st))\<rparr>))
                (dict_pop u (connections st)),
            st\<lparr>players := dict_pop u (players st),
               connections := dict_pop u (connections st),
               play_again_votes := dict_pop u (play_again_votes st),
               turn := (if turn st = Some u then None else turn st)\<rparr>)"
  using assms
  by (auto simp: client_finally_def send_state_def broadcast_no_failure remove_player_def Let_def)

lemma ttt_seated_eq:
  "ttt_seated =
     \<lparr>board = replicate 9 [], players = [(''alice'', ''X''), (''bob'', ''O'')],
      connections = [(''alice'', 1), (''bob'', 2)], turn = Some ''alice'', winner = None,
      active = True, play_again_votes = []\<rparr>"
  by (simp add: ttt_seated_def state_of_def room_message_def add_player_def GameState_init_def
      send_state_def broadcast_def Let_def)

lemma ttt_after_move_eq:
  "ttt_after_move =
     \<lparr>board = [''X'', [], [], [], [], [], [], [], []],
      players = [(''alice'', ''X''), (''bob'', ''O'')],
      connections = [(''alice'', 1), (''bob'', 2)], turn = Some ''bob'', winner = None,
      active = True, play_again_votes = []\<rparr>"
  by (simp add: ttt_after_move_def ttt_seated_eq state_of_def room_message_def apply_move_def
      board_full_def check_winner_def win_lines_def dict_get_def
      send_state_def broadcast_def Let_def numeral_eq_Suc)

theorem disconnect_leaves_board_witness:
  "client_finally (\<lambda>c. False) (Some ''alice'') ttt_after_move =
     ([Sent 2 (State \<lparr>p_board = [''X'', [], [], [], [], [], [], [], []],
                       p_turn = Some ''bob'', p_winner = None,
                       p_players = [(''bob'', ''O'')], p_players_needed = 1,
                       p_play_again_waiting = False\<rparr>)],
      \<lparr>board = [''X'', [], [], [], [], [], [], [], []],
       players = [(''bob'', ''O'')], connections = [(''bob'', 2)], turn = Some ''bob'',
       winner = None, active = True, play_again_votes = []\<rparr>)"
proof -
  have a: "\<forall>c. \<not> (\<lambda>c. False) c" by simp
  have b: "''alice'' \<noteq> []" by simp
  show ?thesis
    unfolding disconnect_leaves_board [OF a b, of ttt_after_move]
    by (simp add: ttt_after_move_eq dict_pop_def board_full_def)
qed

subsection \<open>Lobby: one waiting room per username\<close>

lemma filter_dict_set_le:
  "length (filter P (map snd (dict_set k v d)))
     \<le> length (filter P (map snd d)) + (if P v then 1 else 0)"
  by (induction d) auto

lemma filter_dict_set_old:
  "map_of d k = Some old \<Longrightarrow>
   length (filter P (map snd (dict_set k v d))) + (if P old then 1 else 0)
     = length (filter P (map snd d)) + (if P v then 1 else 0)"
  by (induction d) (auto split: if_splits)

lemma keys_dict_set:
  "map fst (dict_set k v d) = (if k \<in> set (map fst d) then map fst d else map fst d @ [k])"
  by (induction d) auto

lemma distinct_dict_set:
  "distinct (map fst d) \<Longrightarrow> distinct (map fst (dict_set k v d))"
  by (simp add: keys_dict_set)

lemma list_all_dict_set:
  "list_all Q d \<Longrightarrow> Q (k, v) \<Longrightarrow> list_all Q (dict_set k v d)"
  by (induction d) auto

lemma filter_map_le:
  assumes "\<And>x. P (f x) \<Longrightarrow> P x"
  shows "length (filter P (map f xs)) \<le> length (filter P xs)"
  using assms by (induction xs) (auto simp: le_SucI)

lemma lobby_inv_init: "lobby_inv lobby_init"
  by (simp add: lobby_inv_def lobby_init_def waiting_rooms_of_def)

lemma lobby_inv_counter:
  "lobby_inv st \<Longrightarrow> lobby_inv (st\<lparr>room_counter := n\<rparr>)"
  by (simp add: lobby_inv_def waiting_rooms_of_def)

lemma room_stored_under_id:
  assumes "list_all (\<lambda>(k, room). room_id room = k) d" and "map_of d k = Some room"
  shows "room_id room = k"
proof -
  from assms(2) have "(k, room) \<in> set d" by (rule map_of_SomeD)
  with assms(1) show ?thesis by (auto simp: list_all_iff)
qed

lemma lobby_inv_insert_room:
  assumes inv: "lobby_inv st"
    and fresh: "\<forall>existing \<in> set (rooms st).
                  \<not> (status (snd existing) = ''waiting''
                     \<and> hd (r_players room) \<in> set (r_players (snd existing)))"
    and id: "room_id room = rid"
    and one: "length (r_players room) = 1"
  shows "lobby_inv (st\<lparr>room_counter := n, rooms := dict_set rid room (rooms st)\<rparr>)"
proof -
  from one have pl: "r_players room = [hd (r_players room)]"
    by (cases "r_players room") auto
  have "length (filter (\<lambda>r. status r = ''waiting'' \<and> u \<in> set (r_players r))
                  (map snd (dict_set rid room (rooms st)))) \<le> 1" for u
  proof -
    let ?P = "\<lambda>r. status r = ''waiting'' \<and> u \<in> set (r_players r)"
    have le: "length (filter ?P (map snd (dict_set rid room (rooms st))))
              \<le> length (filter ?P (map snd (rooms st))) + (if ?P room then 1 else 0)"
      by (rule filter_dict_set_le)
    show ?thesis
    proof (cases "u = hd (r_players room)")
      case True
      with fresh have "filter ?P (map snd (rooms st)) = []"
        by (auto simp: filter_empty_conv)
      with le show ?thesis
        by (simp split: if_splits)
    next
      case False
      with pl have "\<not> ?P room"
        by (metis empty_iff empty_set set_ConsD)
      moreover from inv have "length (filter ?P (map snd (rooms st))) \<le> 1"
        by (simp add: lobby_inv_def waiting_rooms_of_def)
      ultimately show ?thesis
        using le by (auto split: if_splits)
    qed
  qed
  with inv id show ?thesis
    by (simp add: lobby_inv_def waiting_rooms_of_def distinct_dict_set list_all_dict_set)
qed

lemma lobby_inv_create_room:
  assumes inv: "lobby_inv st"
    and run: "handle_create_room e username_field max_players_field version_field st
                = Some (out, st')"
  shows "lobby_inv st'"
  using run inv
  by (auto simp: handle_create_room_def next_room_id_def Let_def lobby_inv_counter
      intro!: lobby_inv_insert_room
      split: int_field.splits if_splits option.splits)

lemma lobby_inv_replace_room:
  assumes inv: "lobby_inv st"
    and m: "map_of (rooms st) rid = Some old"
    and id: "room_id v = room_id old"
    and sub: "\<And>u. status v = ''waiting'' \<and> u \<in> set (r_players v)
                 \<Longrightarrow> status old = ''waiting'' \<and> u \<in> set (r_players old)"
  shows "lobby_inv (st\<lparr>rooms := dict_set rid v (rooms st)\<rparr>)"
proof -
  from inv m have "room_id old = rid"
    by (auto simp: lobby_inv_def intro: room_stored_under_id)
  with id have id': "room_id v = rid" by simp
  have "length (filter (\<lambda>r. status r = ''waiting'' \<and> u \<in> set (r_players r))
                  (map snd (dict_set rid v (rooms st)))) \<le> 1" for u
  proof -
    let ?P = "\<lambda>r. status r = ''waiting'' \<and> u \<in> set (r_players r)"
    from sub [of u] have "?P v \<Longrightarrow> ?P old" .
    with filter_dict_set_old [OF m, of ?P v]
    have "length (filter ?P (map snd (dict_set rid v (rooms st))))
            \<le> length (filter ?P (map snd (rooms st)))"
      by (auto split: if_splits)
    moreover from inv have "length (filter ?P (map snd (rooms st))) \<le> 1"
      by (simp add: lobby_inv_def waiting_rooms_of_def)
    ultimately show ?thesis by simp
  qed
  with inv id' show ?thesis
    by (simp add: lobby_inv_def waiting_rooms_of_def distinct_dict_set list_all_dict_set)
qed

lemma lobby_inv_monitor_room:
  assumes "lobby_inv st"
  shows "lobby_inv (monitor_room rid st)"
proof (cases "dict_get (rooms st) rid")
  case None
  with assms show ?thesis by (simp add: monitor_room_def)
next
  case (Some room)
  then have m: "map_of (rooms st) rid = Some room" by (simp add: dict_get_def)
  from lobby_inv_replace_room [OF assms m, of "room\<lparr>status := ''closed''\<rparr>"] Some
  show ?thesis by (simp add: monitor_room_def)
qed

lemma lobby_inv_join:
  assumes inv: "lobby_inv st"
    and m: "map_of (rooms st) rid = Some old"
    and waiting: "status old = ''waiting''"
    and new: "username \<notin> set (r_players old)"
    and other: "\<forall>existing \<in> set (rooms st).
                  \<not> (status (snd existing) = ''waiting'' \<and> room_id (snd existing) \<noteq> rid
                     \<and> username \<in> set (r_players (snd existing)))"
  shows "lobby_inv (st\<lparr>rooms := dict_set rid (old\<lparr>r_players := r_players old @ [username]\<rparr>)
                                  (rooms st)\<rparr>)"
proof -
  let ?v = "old\<lparr>r_players := r_players old @ [username]\<rparr>"
  from inv have dist: "distinct (map fst (rooms st))"
    and ids: "list_all (\<lambda>(k, room). room_id room = k) (rooms st)"
    by (simp_all add: lobby_inv_def)
  from ids m have id: "room_id old = rid" by (rule room_stored_under_id)
  have "length (filter (\<lambda>r. status r = ''waiting'' \<and> u \<in> set (r_players r))
                  (map snd (dict_set rid ?v (rooms st)))) \<le> 1" for u
  proof -
    let ?P = "\<lambda>r. status r = ''waiting'' \<and> u \<in> set (r_players r)"
    note eq = filter_dict_set_old [OF m, of ?P ?v]
    show ?thesis
    proof (cases "u = username")
      case True
      have "\<not> ?P r" if "r \<in> set (map snd (rooms st))" for r
      proof
        assume P: "?P r"
        from that obtain k where k: "(k, r) \<in> set (rooms st)" by auto
        with other P True have "room_id r = rid" by force
        moreover from ids k have "room_id r = k" by (auto simp: list_all_iff)
        ultimately have "(rid, r) \<in> set (rooms st)" using k by simp
        with dist have "map_of (rooms st) rid = Some r" by (rule map_of_is_SomeI)
        with m have "r = old" by simp
        with P True new show False by simp
      qed
      then have "filter ?P (map snd (rooms st)) = []"
        by (simp only: filter_empty_conv) blast
      with eq show ?thesis by (simp split: if_splits)
    next
      case False
      then have "?P ?v = ?P old" by simp
      with eq have "length (filter ?P (map snd (dict_set rid ?v (rooms st))))
                     = length (filter ?P (map snd (rooms st)))"
        by (auto split: if_splits)
      moreover from inv have "length (filter ?P (map snd (rooms st))) \<le> 1"
        by (simp add: lobby_inv_def waiting_rooms_of_def)
      ultimately show ?thesis by simp
    qed
  qed
  with dist ids id show ?thesis
    by (simp add: lobby_inv_def waiting_rooms_of_def distinct_dict_set list_all_dict_set)
qed

lemma lobby_inv_join_room:
  assumes inv: "lobby_inv st"
  shows "lobby_inv (snd (handle_join_room room_id_field username_field st))"
  using inv
  by (auto simp: handle_join_room_def Let_def dict_get_def
      intro!: lobby_inv_join split: option.splits)

lemma lobby_inv_leave_everywhere:
  assumes inv: "lobby_inv st"
  shows "lobby_inv (st\<lparr>rooms := map (\<lambda>(k, room).
           (k, if username \<in> set (r_players room)
               then room\<lparr>r_players := filter (\<lambda>p. p \<noteq> username) (r_players room)\<rparr>
               else room)) (rooms st)\<rparr>)"
proof -
  let ?g = "\<lambda>room. if username \<in> set (r_players room)
               then room\<lparr>r_players := filter (\<lambda>p. p \<noteq> username) (r_players room)\<rparr>
               else room"
  let ?rooms' = "map (\<lambda>(k, room). (k, ?g room)) (rooms st)"
  have keys: "map fst ?rooms' = map fst (rooms st)"
    by (induction "rooms st") (auto simp: case_prod_unfold)
  have vals: "map snd ?rooms' = map ?g (map snd (rooms st))"
    by (simp add: case_prod_unfold comp_def)
  from inv have ids: "list_all (\<lambda>(k, room). room_id room = k) ?rooms'"
    by (auto simp: lobby_inv_def list_all_iff)
  have "length (filter (\<lambda>r. status r = ''waiting'' \<and> u \<in> set (r_players r))
                  (map snd ?rooms')) \<le> 1" for u
  proof -
    let ?P = "\<lambda>r. status r = ''waiting'' \<and> u \<in> set (r_players r)"
    have "length (filter ?P (map ?g (map snd (rooms st))))
            \<le> length (filter ?P (map snd (rooms st)))"
      by (rule filter_map_le) (auto split: if_splits)
    moreover from inv have "length (filter ?P (map snd (rooms st))) \<le> 1"
      by (simp add: lobby_inv_def waiting_rooms_of_def)
    ultimately show ?thesis unfolding vals by simp
  qed
  note cnt = this
  from inv have d: "distinct (map fst ?rooms')"
    unfolding keys by (simp add: lobby_inv_def)
  have r: "rooms (st\<lparr>rooms := ?rooms'\<rparr>) = ?rooms'" by simp
  show ?thesis
    unfolding lobby_inv_def waiting_rooms_of_def r using d ids cnt by blast
qed

lemma lobby_inv_leave_room:
  assumes inv: "lobby_inv st"
  shows "lobby_inv (snd (handle_leave_room username_field room_id_field st))"
  using inv
  by (auto simp: handle_leave_room_def Let_def dict_get_def lobby_inv_leave_everywhere
      intro!: lobby_inv_replace_room split: option.splits if_splits)

lemma lobby_inv_handle_message:
  assumes "lobby_inv st" and "handle_message e message st = Some (out, st')"
  shows "lobby_inv st'"
proof (cases message)
  case ListRooms
  with assms show ?thesis by (auto simp: handle_message_def handle_list_rooms_def)
next
  case (CreateRoom u m v)
  with assms show ?thesis
    by (auto simp: handle_message_def intro: lobby_inv_create_room)
next
  case (JoinRoom rid u)
  with assms lobby_inv_join_room [of st rid u] show ?thesis
    by (auto simp: handle_message_def)
next
  case (LeaveRoom u rid)
  with assms lobby_inv_leave_room [of st u rid] show ?thesis
    by (auto simp: handle_message_def)
next
  case (LobbyOther a)
  with assms show ?thesis by (auto simp: handle_message_def)
qed

lemma lobby_inv_run:
  "lobby_inv st \<Longrightarrow> lobby_run steps st = Some st' \<Longrightarrow> lobby_inv st'"
proof (induction steps arbitrary: st)
  case Nil
  then show ?case by simp
next
  case (Cons step steps)
  show ?case
  proof (cases step)
    case (Request e message)
    with Cons.prems obtain out st1 where
        s: "handle_message e message st = Some (out, st1)" "lobby_run steps st1 = Some st'"
      by (auto split: option.splits)
    from lobby_inv_handle_message [OF Cons.prems(1) s(1)] s(2) show ?thesis
      by (rule Cons.IH)
  next
    case (ChildExit rid)
    with Cons.prems have "lobby_run steps (monitor_room rid st) = Some st'" by simp
    with lobby_inv_monitor_room [OF Cons.prems(1), of rid] show ?thesis
      by (rule Cons.IH)
  qed
qed

lemma str_nat_1: "str_nat (Suc 0) = ''1''"
  by (subst str_nat.simps) simp

lemma find_free_port_first: "available port \<Longrightarrow> port \<notin> taken \<Longrightarrow>
  find_free_port available port taken = Some port"
  by (subst find_free_port.simps) simp

lemma create_demo:
  "handle_message (lobby_env_demo 1) (CreateRoom (Some ''alice'') (FieldInt 2) None) lobby_init
   = Some ([LobbyOk ''create_room'' (RoomAddress ''R1'' ''g'' ''latest'' ''localhost'' 12000)],
           \<lparr>rooms = [(''R1'', room_demo [''alice''])], room_counter = 1\<rparr>)"
  by (simp add: handle_message_def handle_create_room_def lobby_init_def next_room_id_def
      lobby_env_demo_def find_free_port_first str_nat_1 room_demo_def Let_def)

lemma join_demo:
  "handle_message (lobby_env_demo 2) (JoinRoom (Some ''R1'') (Some ''bob''))
     \<lparr>rooms = [(''R1'', room_demo [''alice''])], room_counter = 1\<rparr>
   = Some ([LobbyOk ''join_room'' (RoomAddress ''R1'' ''g'' ''latest'' ''localhost'' 12000)],
           \<lparr>rooms = [(''R1'', room_demo [''alice'', ''bob''])], room_counter = 1\<rparr>)"
  by (simp add: handle_message_def handle_join_room_def dict_get_def room_demo_def Let_def)

lemma create_again_demo:
  "handle_message (lobby_env_demo 2) (CreateRoom (Some ''bob'') FieldMissing None)
     \<lparr>rooms = [(''R1'', room_demo [''alice'', ''bob''])], room_counter = 1\<rparr>
   = Some ([LobbyError ''create_room'' ''ALREADY_IN_ROOM''],
           \<lparr>rooms = [(''R1'', room_demo [''alice'', ''bob''])], room_counter = 2\<rparr>)"
  by (simp add: handle_message_def handle_create_room_def next_room_id_def room_demo_def Let_def)

text \<open>
  C6. In every state that a history of \<^verbatim>\<open>create_room\<close>, \<^verbatim>\<open>join_room\<close>, \<^verbatim>\<open>leave_room\<close>
  and \<^verbatim>\<open>list_rooms\<close> requests (and exits of room children in between) reaches from the
  empty lobby, a username is in the player list of at most one waiting room.
\<close>

theorem waiting_room_unique:
  assumes "lobby_run steps lobby_init = Some st"
  shows "length (waiting_rooms_of st username) \<le> 1"
  using lobby_inv_run [OF lobby_inv_init assms]
  by (simp add: lobby_inv_def)

theorem waiting_room_unique_witness:
  "lobby_run [Request (lobby_env_demo 1) (CreateRoom (Some ''alice'') (FieldInt 2) None),
              Request (lobby_env_demo 2) (JoinRoom (Some ''R1'') (Some ''bob'')),
              Request (lobby_env_demo 2) (CreateRoom (Some ''bob'') FieldMissing None)]
     lobby_init
     = Some \<lparr>rooms = [(''R1'', room_demo [''alice'', ''bob''])], room_counter = 2\<rparr>
   \<and> waiting_rooms_of \<lparr>rooms = [(''R1'', room_demo [''alice'', ''bob''])], room_counter = 2\<rparr>
        ''bob'' = [room_demo [''alice'', ''bob'']]
   \<and> length (waiting_rooms_of
        \<lparr>rooms = [(''R1'', room_demo [''alice'', ''bob''])], room_counter = 2\<rparr> ''bob'') \<le> 1"
proof -
  have run: "lobby_run [Request (lobby_env_demo 1) (CreateRoom (Some ''alice'') (FieldInt 2) None),
              Request (lobby_env_demo 2) (JoinRoom (Some ''R1'') (Some ''bob'')),
              Request (lobby_env_demo 2) (CreateRoom (Some ''bob'') FieldMissing None)]
     lobby_init
     = Some \<lparr>rooms = [(''R1'', room_demo [''alice'', ''bob''])], room_counter = 2\<rparr>"
    by (simp only: lobby_run.simps create_demo join_demo create_again_demo option.case
        prod.case)
  have there: "waiting_rooms_of
        \<lparr>rooms = [(''R1'', room_demo [''alice'', ''bob''])], room_counter = 2\<rparr> ''bob''
        = [room_demo [''alice'', ''bob'']]"
    by (simp add: waiting_rooms_of_def room_demo_def)
  from waiting_room_unique [OF run, of "''bob''"] run there show ?thesis
    by (intro conjI)
qed

end
